theory Spec2Isabelle
  imports Main
begin

section \<open>Data model of the project service\<close>

text \<open>
  The repository's scripts carry the TypeScript methods of \<open>projectService.ts\<close> and
  \<open>aiWritingCompanion.ts\<close> as replacement texts. The definitions below embed those
  method bodies.

  Timestamps are the ISO strings of \<open>new Date().toISOString()\<close>; they are compared as
  instants, so a timestamp is a natural number (milliseconds). Every reading of the
  clock is an argument of the operation that reads it, in the order of the reads.
  JavaScript numbers that hold counts are integers.
\<close>

type_synonym timestamp = nat

record Story =
  s_id :: string
  s_title :: string
  s_description :: string
  s_projectId :: string
  s_content :: string
  s_wordCount :: int
  s_type :: string
  s_createdAt :: timestamp
  s_updatedAt :: timestamp
  s_isArchived :: bool
  s_order :: int

record Character =
  c_id :: string
  c_name :: string
  c_description :: string
  c_projectId :: string
  c_role :: string
  c_age :: "int option"
  c_appearance :: string
  c_personality :: string
  c_backstory :: string
  c_goals :: string
  c_createdAt :: timestamp
  c_updatedAt :: timestamp

text \<open>
  \<open>stories\<close> and \<open>characters\<close> may be missing on a project (the code tests
  \<open>if (project.stories)\<close> and initialises \<open>project.stories || []\<close>): \<open>None\<close> is
  the missing list. An empty array is truthy in JavaScript, so \<open>Some []\<close> is scanned.
\<close>

record Project =
  p_id :: string
  p_title :: string
  p_description :: string
  p_createdAt :: timestamp
  p_updatedAt :: timestamp
  p_lastEditedAt :: timestamp
  p_wordCount :: int
  p_stories :: "Story list option"
  p_characters :: "Character list option"

text \<open>
  The service's surroundings: what the storage backend holds, how many times
  \<open>storageService.saveProjects\<close> was called, and the events emitted so far
  (event name and payload, oldest first).
\<close>

record ServiceState =
  storage :: "Project list"
  writes :: nat
  events :: "(string \<times> Project) list"

text \<open>
  Modelled from the spec: \<open>getAllProjects\<close>, \<open>storageService.saveProjects\<close> and
  \<open>emit\<close> are not in the sources. Section 4.1 and 4.2 of the specification: every
  operation loads all projects; \<open>saveProjects(snapshot)\<close> commits the full ordered
  sequence, replacing the prior state; \<open>emit\<close> delivers the event synchronously.
\<close>

definition getAllProjects :: "ServiceState \<Rightarrow> Project list" where
  "getAllProjects st = storage st"

definition saveProjects :: "Project list \<Rightarrow> ServiceState \<Rightarrow> ServiceState" where
  "saveProjects projects st = st\<lparr>storage := projects, writes := Suc (writes st)\<rparr>"

definition emit :: "string \<Rightarrow> Project \<Rightarrow> ServiceState \<Rightarrow> ServiceState" where
  "emit eventName payload st = st\<lparr>events := events st @ [(eventName, payload)]\<rparr>"

text \<open>\<open>Array.prototype.findIndex\<close>: the first index whose element satisfies the
  predicate; \<open>None\<close> is the result \<open>-1\<close>.\<close>

fun findIndex :: "('a \<Rightarrow> bool) \<Rightarrow> 'a list \<Rightarrow> nat option" where
  "findIndex P [] = None"
| "findIndex P (x # xs) =
     (if P x then Some 0 else map_option Suc (findIndex P xs))"

text \<open>\<open>x || ''\<close> on an optional string: a missing or empty string gives the empty
  string, any other string itself.\<close>

definition orEmpty :: "string option \<Rightarrow> string" where
  "orEmpty x = (case x of None \<Rightarrow> [] | Some s \<Rightarrow> (if s = [] then [] else s))"

text \<open>JavaScript truthiness of an optional string: present and not empty.\<close>

definition truthy :: "string option \<Rightarrow> bool" where
  "truthy x = (case x of None \<Rightarrow> False | Some s \<Rightarrow> s \<noteq> [])"

section \<open>Creating stories and characters\<close>

record CreateStoryData =
  cs_title :: string
  cs_description :: "string option"
  cs_projectId :: string

record CreateCharacterData =
  cc_name :: string
  cc_description :: "string option"
  cc_projectId :: string

text \<open>The object literal of \<open>createStory\<close>. \<open>newId\<close> is the result of
  \<open>this.generateId()\<close>, which is not in the sources.\<close>

definition newStory :: "string \<Rightarrow> CreateStoryData \<Rightarrow> timestamp \<Rightarrow> Story" where
  "newStory newId data now =
     \<lparr> s_id = newId,
       s_title = cs_title data,
       s_description = orEmpty (cs_description data),
       s_projectId = cs_projectId data,
       s_content = [],
       s_wordCount = 0,
       s_type = ''story'',
       s_createdAt = now,
       s_updatedAt = now,
       s_isArchived = False,
       s_order = 0 \<rparr>"

definition createStory ::
  "string \<Rightarrow> CreateStoryData \<Rightarrow> timestamp \<Rightarrow> ServiceState \<Rightarrow> Story \<times> ServiceState" where
  "createStory newId data now st =
     (let story = newStory newId data now;
          projects = getAllProjects st
      in case findIndex (\<lambda>p. p_id p = cs_projectId data) projects of
           None \<Rightarrow> (story, st)
         | Some projectIndex \<Rightarrow>
             (let project = projects ! projectIndex;
                  stories = (case p_stories project of None \<Rightarrow> [] | Some ss \<Rightarrow> ss) @ [story];
                  projects' = projects[projectIndex :=
                                project\<lparr>p_stories := Some stories, p_updatedAt := now\<rparr>]
              in (story, saveProjects projects' st)))"

text \<open>The object literal of \<open>createCharacter\<close>; \<open>age: undefined\<close> is \<open>None\<close>.\<close>

definition newCharacter :: "string \<Rightarrow> CreateCharacterData \<Rightarrow> timestamp \<Rightarrow> Character" where
  "newCharacter newId data now =
     \<lparr> c_id = newId,
       c_name = cc_name data,
       c_description = orEmpty (cc_description data),
       c_projectId = cc_projectId data,
       c_role = ''supporting'',
       c_age = None,
       c_appearance = [],
       c_personality = [],
       c_backstory = [],
       c_goals = [],
       c_createdAt = now,
       c_updatedAt = now \<rparr>"

definition createCharacter ::
  "string \<Rightarrow> CreateCharacterData \<Rightarrow> timestamp \<Rightarrow> ServiceState \<Rightarrow> Character \<times> ServiceState"
  where
  "createCharacter newId data now st =
     (let character = newCharacter newId data now;
          projects = getAllProjects st
      in case findIndex (\<lambda>p. p_id p = cc_projectId data) projects of
           None \<Rightarrow> (character, st)
         | Some projectIndex \<Rightarrow>
             (let project = projects ! projectIndex;
                  characters =
                    (case p_characters project of None \<Rightarrow> [] | Some cs \<Rightarrow> cs) @ [character];
                  projects' = projects[projectIndex :=
                                project\<lparr>p_characters := Some characters, p_updatedAt := now\<rparr>]
              in (character, saveProjects projects' st)))"

section \<open>Updating a project\<close>

text \<open>
  \<open>UpdateProjectData\<close> is not declared in the sources; it is taken as a partial
  \<open>Project\<close>: every field optional, \<open>None\<close> when the key is not in the object.
\<close>

record UpdateProjectData =
  d_id :: "string option"
  d_title :: "string option"
  d_description :: "string option"
  d_createdAt :: "timestamp option"
  d_updatedAt :: "timestamp option"
  d_lastEditedAt :: "timestamp option"
  d_wordCount :: "int option"
  d_stories :: "Story list option"
  d_characters :: "Character list option"

text \<open>One key of an object spread \<open>{...old, ...partial}\<close>: the partial's value when
  it has the key, the old value otherwise.\<close>

definition spread :: "'a \<Rightarrow> 'a option \<Rightarrow> 'a" where
  "spread old new = (case new of None \<Rightarrow> old | Some v \<Rightarrow> v)"

definition mergeProject :: "Project \<Rightarrow> UpdateProjectData \<Rightarrow> Project" where
  "mergeProject p data =
     \<lparr> p_id = spread (p_id p) (d_id data),
       p_title = spread (p_title p) (d_title data),
       p_description = spread (p_description p) (d_description data),
       p_createdAt = spread (p_createdAt p) (d_createdAt data),
       p_updatedAt = spread (p_updatedAt p) (d_updatedAt data),
       p_lastEditedAt = spread (p_lastEditedAt p) (d_lastEditedAt data),
       p_wordCount = spread (p_wordCount p) (d_wordCount data),
       p_stories = (case d_stories data of None \<Rightarrow> p_stories p | Some ss \<Rightarrow> Some ss),
       p_characters =
         (case d_characters data of None \<Rightarrow> p_characters p | Some cs \<Rightarrow> Some cs) \<rparr>"

text \<open>The empty partial \<open>{}\<close>.\<close>

definition noProjectData :: UpdateProjectData where
  "noProjectData =
     \<lparr> d_id = None, d_title = None, d_description = None, d_createdAt = None,
       d_updatedAt = None, d_lastEditedAt = None, d_wordCount = None, d_stories = None,
       d_characters = None \<rparr>"

text \<open>
  \<open>updateProjectSync\<close>. \<open>calculateProjectWordCount\<close> is not in the sources and is
  the parameter \<open>calc\<close>; it is called on the service as it is before the save.
  \<open>now1\<close> and \<open>now2\<close> are the two readings of the clock, for \<open>updatedAt\<close> and
  \<open>lastEditedAt\<close>.
\<close>

definition updateProjectSync ::
  "(ServiceState \<Rightarrow> string \<Rightarrow> int) \<Rightarrow> string \<Rightarrow> UpdateProjectData \<Rightarrow> timestamp \<Rightarrow> timestamp
     \<Rightarrow> ServiceState \<Rightarrow> Project option \<times> ServiceState" where
  "updateProjectSync calc pid data now1 now2 st =
     (let projects = getAllProjects st
      in case findIndex (\<lambda>p. p_id p = pid) projects of
           None \<Rightarrow> (None, st)
         | Some index \<Rightarrow>
             (let merged = (mergeProject (projects ! index) data)
                             \<lparr>p_updatedAt := now1, p_lastEditedAt := now2\<rparr>;
                  updated = (if truthy (d_title data) \<or> truthy (d_description data)
                             then merged\<lparr>p_wordCount := calc st pid\<rparr>
                             else merged);
                  projects' = projects[index := updated]
              in (Some updated, emit ''project-updated'' updated (saveProjects projects' st))))"

section \<open>Updating and deleting stories and characters\<close>

text \<open>
  \<open>updates: any\<close> is taken as a partial \<open>Story\<close> (a partial \<open>Character\<close>): every
  field optional.
\<close>

record StoryUpdates =
  su_id :: "string option"
  su_title :: "string option"
  su_description :: "string option"
  su_projectId :: "string option"
  su_content :: "string option"
  su_wordCount :: "int option"
  su_type :: "string option"
  su_createdAt :: "timestamp option"
  su_updatedAt :: "timestamp option"
  su_isArchived :: "bool option"
  su_order :: "int option"

record CharacterUpdates =
  cu_id :: "string option"
  cu_name :: "string option"
  cu_description :: "string option"
  cu_projectId :: "string option"
  cu_role :: "string option"
  cu_age :: "int option option"
  cu_appearance :: "string option"
  cu_personality :: "string option"
  cu_backstory :: "string option"
  cu_goals :: "string option"
  cu_createdAt :: "timestamp option"
  cu_updatedAt :: "timestamp option"

text \<open>\<open>{...story, ...updates, updatedAt: now}\<close>: the stamp comes last and wins over
  an \<open>updatedAt\<close> of the updates.\<close>

definition mergeStory :: "Story \<Rightarrow> StoryUpdates \<Rightarrow> timestamp \<Rightarrow> Story" where
  "mergeStory s u now =
     \<lparr> s_id = spread (s_id s) (su_id u),
       s_title = spread (s_title s) (su_title u),
       s_description = spread (s_description s) (su_description u),
       s_projectId = spread (s_projectId s) (su_projectId u),
       s_content = spread (s_content s) (su_content u),
       s_wordCount = spread (s_wordCount s) (su_wordCount u),
       s_type = spread (s_type s) (su_type u),
       s_createdAt = spread (s_createdAt s) (su_createdAt u),
       s_updatedAt = now,
       s_isArchived = spread (s_isArchived s) (su_isArchived u),
       s_order = spread (s_order s) (su_order u) \<rparr>"

definition mergeCharacter :: "Character \<Rightarrow> CharacterUpdates \<Rightarrow> timestamp \<Rightarrow> Character" where
  "mergeCharacter c u now =
     \<lparr> c_id = spread (c_id c) (cu_id u),
       c_name = spread (c_name c) (cu_name u),
       c_description = spread (c_description c) (cu_description u),
       c_projectId = spread (c_projectId c) (cu_projectId u),
       c_role = spread (c_role c) (cu_role u),
       c_age = spread (c_age c) (cu_age u),
       c_appearance = spread (c_appearance c) (cu_appearance u),
       c_personality = spread (c_personality c) (cu_personality u),
       c_backstory = spread (c_backstory c) (cu_backstory u),
       c_goals = spread (c_goals c) (cu_goals u),
       c_createdAt = spread (c_createdAt c) (cu_createdAt u),
       c_updatedAt = now \<rparr>"

text \<open>The updates object \<open>{title: T}\<close>.\<close>

definition titleOnly :: "string \<Rightarrow> StoryUpdates" where
  "titleOnly T =
     \<lparr> su_id = None, su_title = Some T, su_description = None, su_projectId = None,
       su_content = None, su_wordCount = None, su_type = None, su_createdAt = None,
       su_updatedAt = None, su_isArchived = None, su_order = None \<rparr>"

text \<open>The updates object \<open>{}\<close> for a character.\<close>

definition noCharacterUpdates :: CharacterUpdates where
  "noCharacterUpdates =
     \<lparr> cu_id = None, cu_name = None, cu_description = None, cu_projectId = None,
       cu_role = None, cu_age = None, cu_appearance = None, cu_personality = None,
       cu_backstory = None, cu_goals = None, cu_createdAt = None, cu_updatedAt = None \<rparr>"

text \<open>
  The loop \<open>for (let i = 0; i < projects.length; i++)\<close> of the update and delete
  methods returns at the first project in which the body finds its target.
  \<open>scanProjects hit i rest\<close> is the loop at index \<open>i\<close> with \<open>rest\<close> the projects
  from \<open>i\<close> on; \<open>hit project\<close> is what the body finds in one project.
\<close>

fun scanProjects :: "(Project \<Rightarrow> 'a option) \<Rightarrow> nat \<Rightarrow> Project list \<Rightarrow> (nat \<times> 'a) option" where
  "scanProjects hit i [] = None"
| "scanProjects hit i (project # rest) =
     (case hit project of
        Some found \<Rightarrow> Some (i, found)
      | None \<Rightarrow> scanProjects hit (Suc i) rest)"

text \<open>\<open>if (project.stories) { const storyIndex = project.stories.findIndex(s => s.id
  === storyId); if (storyIndex !== -1) ...\<close>: the story list and the index found.\<close>

definition storyHit :: "string \<Rightarrow> Project \<Rightarrow> (Story list \<times> nat) option" where
  "storyHit storyId project =
     (case p_stories project of
        None \<Rightarrow> None
      | Some stories \<Rightarrow>
          (case findIndex (\<lambda>s. s_id s = storyId) stories of
             None \<Rightarrow> None
           | Some storyIndex \<Rightarrow> Some (stories, storyIndex)))"

definition characterHit :: "string \<Rightarrow> Project \<Rightarrow> (Character list \<times> nat) option" where
  "characterHit characterId project =
     (case p_characters project of
        None \<Rightarrow> None
      | Some characters \<Rightarrow>
          (case findIndex (\<lambda>c. c_id c = characterId) characters of
             None \<Rightarrow> None
           | Some characterIndex \<Rightarrow> Some (characters, characterIndex)))"

text \<open>\<open>now1\<close> is the clock reading stamped on the child, \<open>now2\<close> the later reading
  stamped on the project.\<close>

definition updateStory ::
  "string \<Rightarrow> StoryUpdates \<Rightarrow> timestamp \<Rightarrow> timestamp \<Rightarrow> ServiceState
     \<Rightarrow> Story option \<times> ServiceState" where
  "updateStory storyId updates now1 now2 st =
     (let projects = getAllProjects st
      in case scanProjects (storyHit storyId) 0 projects of
           None \<Rightarrow> (None, st)
         | Some (i, stories, storyIndex) \<Rightarrow>
             (let updatedStory = mergeStory (stories ! storyIndex) updates now1;
                  project' = (projects ! i)
                    \<lparr>p_stories := Some (stories[storyIndex := updatedStory]),
                     p_updatedAt := now2\<rparr>
              in (Some updatedStory, saveProjects (projects[i := project']) st)))"

definition updateCharacter ::
  "string \<Rightarrow> CharacterUpdates \<Rightarrow> timestamp \<Rightarrow> timestamp \<Rightarrow> ServiceState
     \<Rightarrow> Character option \<times> ServiceState" where
  "updateCharacter characterId updates now1 now2 st =
     (let projects = getAllProjects st
      in case scanProjects (characterHit characterId) 0 projects of
           None \<Rightarrow> (None, st)
         | Some (i, characters, characterIndex) \<Rightarrow>
             (let updatedCharacter = mergeCharacter (characters ! characterIndex) updates now1;
                  project' = (projects ! i)
                    \<lparr>p_characters := Some (characters[characterIndex := updatedCharacter]),
                     p_updatedAt := now2\<rparr>
              in (Some updatedCharacter, saveProjects (projects[i := project']) st)))"

text \<open>\<open>xs.splice(k, 1)\<close> with \<open>k\<close> an index of \<open>xs\<close>: the element at \<open>k\<close> is
  removed.\<close>

definition splice1 :: "nat \<Rightarrow> 'a list \<Rightarrow> 'a list" where
  "splice1 k xs = take k xs @ drop (Suc k) xs"

text \<open>
  \<open>deleteCharacter\<close> is given whole; of \<open>deleteStory\<close> the sources give the
  loop, the same with \<open>stories\<close> for \<open>characters\<close>, and the method ends as
  \<open>deleteCharacter\<close> does, with \<open>return false\<close> after the loop. \<open>now\<close> is
  the clock reading stamped on the project.
\<close>

definition deleteStory :: "string \<Rightarrow> timestamp \<Rightarrow> ServiceState \<Rightarrow> bool \<times> ServiceState" where
  "deleteStory storyId now st =
     (let projects = getAllProjects st
      in case scanProjects (storyHit storyId) 0 projects of
           None \<Rightarrow> (False, st)
         | Some (i, stories, storyIndex) \<Rightarrow>
             (let project' = (projects ! i)
                    \<lparr>p_stories := Some (splice1 storyIndex stories), p_updatedAt := now\<rparr>
              in (True, saveProjects (projects[i := project']) st)))"

definition deleteCharacter :: "string \<Rightarrow> timestamp \<Rightarrow> ServiceState \<Rightarrow> bool \<times> ServiceState" where
  "deleteCharacter characterId now st =
     (let projects = getAllProjects st
      in case scanProjects (characterHit characterId) 0 projects of
           None \<Rightarrow> (False, st)
         | Some (i, characters, characterIndex) \<Rightarrow>
             (let project' = (projects ! i)
                    \<lparr>p_characters := Some (splice1 characterIndex characters),
                     p_updatedAt := now\<rparr>
              in (True, saveProjects (projects[i := project']) st)))"

text \<open>The stories (characters) a project contains; none when the list is missing.\<close>

definition storiesOf :: "Project \<Rightarrow> Story list" where
  "storiesOf p = (case p_stories p of None \<Rightarrow> [] | Some ss \<Rightarrow> ss)"

definition charactersOf :: "Project \<Rightarrow> Character list" where
  "charactersOf p = (case p_characters p of None \<Rightarrow> [] | Some cs \<Rightarrow> cs)"

text \<open>The ids of all stories (characters) of a snapshot, project after project.\<close>

definition storyIds :: "Project list \<Rightarrow> string list" where
  "storyIds projects = concat (map (\<lambda>p. map s_id (storiesOf p)) projects)"

definition characterIds :: "Project list \<Rightarrow> string list" where
  "characterIds projects = concat (map (\<lambda>p. map c_id (charactersOf p)) projects)"

section \<open>Stamps of a project and of its children\<close>

text \<open>\<open>stampedBy t p\<close>: no story and no character of \<open>p\<close> carries an
  \<open>updatedAt\<close> later than \<open>t\<close>. \<open>coversChildren p\<close>: the project's own
  \<open>updatedAt\<close> is at least that of every story and character it contains.\<close>

definition stampedBy :: "timestamp \<Rightarrow> Project \<Rightarrow> bool" where
  "stampedBy t p =
     (list_all (\<lambda>s. s_updatedAt s \<le> t) (storiesOf p)
      \<and> list_all (\<lambda>c. c_updatedAt c \<le> t) (charactersOf p))"

definition coversChildren :: "Project \<Rightarrow> bool" where
  "coversChildren p = stampedBy (p_updatedAt p) p"

section \<open>The personality registry\<close>

record Traits =
  encouraging :: nat
  critical :: nat
  creative :: nat
  analytical :: nat

text \<open>
  The interface \<open>AIPersonality\<close> in its two versions: as the first script's
  initialisation fills it, and with the two fields \<open>specialties\<close> and
  \<open>communicationStyle\<close> that the second script adds to the interface.
\<close>

record AIPersonality_v1 =
  ai_id :: string
  ai_name :: string
  ai_description :: string
  ai_role :: string
  ai_traits :: Traits
  ai_greetingStyle :: string
  ai_feedbackStyle :: string
  ai_isActive :: bool

record AIPersonality = AIPersonality_v1 +
  ai_specialties :: "string list"
  ai_communicationStyle :: string

text \<open>The entries of the Python list \<open>personalities\<close> from which the script
  builds the initialisation.\<close>

record PersonalitySeed =
  seed_id :: string
  seed_role :: string
  seed_name :: string
  seed_traits :: Traits
  seed_specialties :: "string list"
  seed_communicationStyle :: string

definition personalitySeeds :: "PersonalitySeed list" where
  "personalitySeeds =
     [ \<lparr> seed_id = ''mentor'', seed_role = ''mentor'', seed_name = ''Wise Mentor'',
         seed_traits = \<lparr>encouraging = 80, critical = 20, creative = 60, analytical = 70\<rparr>,
         seed_specialties = [''guidance'', ''motivation'', ''story_structure''],
         seed_communicationStyle = ''supportive'' \<rparr>,
       \<lparr> seed_id = ''critic'', seed_role = ''critic'', seed_name = ''Analytical Critic'',
         seed_traits = \<lparr>encouraging = 30, critical = 90, creative = 40, analytical = 95\<rparr>,
         seed_specialties = [''grammar'', ''style_analysis'', ''plot_holes''],
         seed_communicationStyle = ''formal'' \<rparr>,
       \<lparr> seed_id = ''cheerleader'', seed_role = ''cheerleader'',
         seed_name = ''Enthusiastic Cheerleader'',
         seed_traits = \<lparr>encouraging = 95, critical = 10, creative = 75, analytical = 30\<rparr>,
         seed_specialties = [''motivation'', ''confidence_building'', ''encouragement''],
         seed_communicationStyle = ''playful'' \<rparr>,
       \<lparr> seed_id = ''collaborator'', seed_role = ''collaborator'',
         seed_name = ''Creative Collaborator'',
         seed_traits = \<lparr>encouraging = 70, critical = 40, creative = 90, analytical = 60\<rparr>,
         seed_specialties = [''brainstorming'', ''idea_generation'', ''creative_prompts''],
         seed_communicationStyle = ''casual'' \<rparr>,
       \<lparr> seed_id = ''editor'', seed_role = ''editor'', seed_name = ''Professional Editor'',
         seed_traits = \<lparr>encouraging = 50, critical = 80, creative = 30, analytical = 85\<rparr>,
         seed_specialties = [''editing'', ''proofreading'', ''structure''],
         seed_communicationStyle = ''direct'' \<rparr> ]"

text \<open>The characters at which Python's \<open>str.split()\<close> without argument
  splits, among the ASCII characters: the blank, tab, line feed, vertical tab, form
  feed, carriage return and the four separators \<open>0x1C\<close> to \<open>0x1F\<close>.\<close>

definition isWhitespace :: "char \<Rightarrow> bool" where
  "isWhitespace c \<longleftrightarrow>
     c \<in> set [CHR '' '', CHR 0x09, CHR 0x0A, CHR 0x0B, CHR 0x0C, CHR 0x0D,
               CHR 0x1C, CHR 0x1D, CHR 0x1E, CHR 0x1F]"

text \<open>Python's \<open>str.split()\<close>: the words of a string, runs of whitespace
  separating them; \<open>word\<close> is the word read so far.\<close>

fun splitWords :: "string \<Rightarrow> string \<Rightarrow> string list" where
  "splitWords word [] = (if word = [] then [] else [word])"
| "splitWords word (c # cs) =
     (if isWhitespace c
      then (if word = [] then splitWords [] cs else word # splitWords [] cs)
      else splitWords (word @ [c]) cs)"

text \<open>One entry of \<open>new_init\<close>, as the f-string renders it. \<open>p["name"].split()[1]\<close>
  raises \<open>IndexError\<close> on a name of fewer than two words: \<open>None\<close>.\<close>

definition renderPersonality :: "PersonalitySeed \<Rightarrow> AIPersonality option" where
  "renderPersonality p =
     (case splitWords [] (seed_name p) of
        w0 # w1 # ws \<Rightarrow>
          Some \<lparr> ai_id = seed_id p,
                 ai_name = seed_name p,
                 ai_description = w1 @ '' personality'',
                 ai_role = seed_role p,
                 ai_traits = seed_traits p,
                 ai_greetingStyle = seed_communicationStyle p,
                 ai_feedbackStyle = ''constructive'',
                 ai_isActive = (seed_id p = ''mentor''),
                 ai_specialties = seed_specialties p,
                 ai_communicationStyle = seed_communicationStyle p \<rparr>
      | _ \<Rightarrow> None)"

text \<open>The loop \<open>for p in personalities\<close>: the rendered entries in order, or the
  exception.\<close>

fun new_init :: "PersonalitySeed list \<Rightarrow> AIPersonality list option" where
  "new_init [] = Some []"
| "new_init (p # ps) =
     (case renderPersonality p of
        None \<Rightarrow> None
      | Some e \<Rightarrow> (case new_init ps of None \<Rightarrow> None | Some es \<Rightarrow> Some (e # es)))"

text \<open>The array \<open>this.personalities\<close> that the rendered text initialises.\<close>

definition personalities :: "AIPersonality list" where
  "personalities =
     [ \<lparr> ai_id = ''mentor'', ai_name = ''Wise Mentor'',
         ai_description = ''Mentor personality'', ai_role = ''mentor'',
         ai_traits = \<lparr>encouraging = 80, critical = 20, creative = 60, analytical = 70\<rparr>,
         ai_greetingStyle = ''supportive'', ai_feedbackStyle = ''constructive'',
         ai_isActive = True,
         ai_specialties = [''guidance'', ''motivation'', ''story_structure''],
         ai_communicationStyle = ''supportive'' \<rparr>,
       \<lparr> ai_id = ''critic'', ai_name = ''Analytical Critic'',
         ai_description = ''Critic personality'', ai_role = ''critic'',
         ai_traits = \<lparr>encouraging = 30, critical = 90, creative = 40, analytical = 95\<rparr>,
         ai_greetingStyle = ''formal'', ai_feedbackStyle = ''constructive'',
         ai_isActive = False,
         ai_specialties = [''grammar'', ''style_analysis'', ''plot_holes''],
         ai_communicationStyle = ''formal'' \<rparr>,
       \<lparr> ai_id = ''cheerleader'', ai_name = ''Enthusiastic Cheerleader'',
         ai_description = ''Cheerleader personality'', ai_role = ''cheerleader'',
         ai_traits = \<lparr>encouraging = 95, critical = 10, creative = 75, analytical = 30\<rparr>,
         ai_greetingStyle = ''playful'', ai_feedbackStyle = ''constructive'',
         ai_isActive = False,
         ai_specialties = [''motivation'', ''confidence_building'', ''encouragement''],
         ai_communicationStyle = ''playful'' \<rparr>,
       \<lparr> ai_id = ''collaborator'', ai_name = ''Creative Collaborator'',
         ai_description = ''Collaborator personality'', ai_role = ''collaborator'',
         ai_traits = \<lparr>encouraging = 70, critical = 40, creative = 90, analytical = 60\<rparr>,
         ai_greetingStyle = ''casual'', ai_feedbackStyle = ''constructive'',
         ai_isActive = False,
         ai_specialties = [''brainstorming'', ''idea_generation'', ''creative_prompts''],
         ai_communicationStyle = ''casual'' \<rparr>,
       \<lparr> ai_id = ''editor'', ai_name = ''Professional Editor'',
         ai_description = ''Editor personality'', ai_role = ''editor'',
         ai_traits = \<lparr>encouraging = 50, critical = 80, creative = 30, analytical = 85\<rparr>,
         ai_greetingStyle = ''direct'', ai_feedbackStyle = ''constructive'',
         ai_isActive = False,
         ai_specialties = [''editing'', ''proofreading'', ''structure''],
         ai_communicationStyle = ''direct'' \<rparr> ]"

text \<open>The array \<open>this.personalities\<close> as the first script's replacement text
  \<open>new_personalities\<close> initialises it.\<close>

definition personalities_v1 :: "AIPersonality_v1 list" where
  "personalities_v1 =
     [ \<lparr> ai_id = ''mentor'', ai_name = ''Wise Mentor'',
         ai_description = ''Supportive and guiding'', ai_role = ''mentor'',
         ai_traits = \<lparr>encouraging = 80, critical = 20, creative = 60, analytical = 70\<rparr>,
         ai_greetingStyle = ''warm'', ai_feedbackStyle = ''constructive'',
         ai_isActive = True \<rparr>,
       \<lparr> ai_id = ''critic'', ai_name = ''Analytical Critic'',
         ai_description = ''Detail-oriented and precise'', ai_role = ''critic'',
         ai_traits = \<lparr>encouraging = 30, critical = 90, creative = 40, analytical = 95\<rparr>,
         ai_greetingStyle = ''professional'', ai_feedbackStyle = ''detailed'',
         ai_isActive = False \<rparr>,
       \<lparr> ai_id = ''cheerleader'', ai_name = ''Enthusiastic Cheerleader'',
         ai_description = ''Energetic and supportive'', ai_role = ''cheerleader'',
         ai_traits = \<lparr>encouraging = 95, critical = 10, creative = 75, analytical = 30\<rparr>,
         ai_greetingStyle = ''artistic'', ai_feedbackStyle = ''encouraging'',
         ai_isActive = False \<rparr>,
       \<lparr> ai_id = ''collaborator'', ai_name = ''Creative Collaborator'',
         ai_description = ''Collaborative and creative'', ai_role = ''collaborator'',
         ai_traits = \<lparr>encouraging = 70, critical = 40, creative = 90, analytical = 60\<rparr>,
         ai_greetingStyle = ''curious'', ai_feedbackStyle = ''collaborative'',
         ai_isActive = False \<rparr>,
       \<lparr> ai_id = ''editor'', ai_name = ''Professional Editor'',
         ai_description = ''Focused on quality and precision'', ai_role = ''editor'',
         ai_traits = \<lparr>encouraging = 50, critical = 80, creative = 30, analytical = 85\<rparr>,
         ai_greetingStyle = ''direct'', ai_feedbackStyle = ''editorial'',
         ai_isActive = False \<rparr> ]"

text \<open>
  Modelled from the spec: \<open>setActivePersonality\<close> is not in the sources. Section 4.5
  of the specification: if the id is unknown it no-ops; otherwise it clears
  \<open>isActive\<close> on all profiles and sets it exclusively on the target. The target is
  the profile a lookup by id finds, the first with that id.
\<close>

definition setActivePersonality ::
  "string \<Rightarrow> 'a AIPersonality_v1_scheme list \<Rightarrow> 'a AIPersonality_v1_scheme list" where
  "setActivePersonality pid registry =
     (case findIndex (\<lambda>p. ai_id p = pid) registry of
        None \<Rightarrow> registry
      | Some target \<Rightarrow>
          (map (\<lambda>p. p\<lparr>ai_isActive := False\<rparr>) registry)
            [target := (registry ! target)\<lparr>ai_isActive := True\<rparr>])"

text \<open>A sequence of \<open>setActivePersonality\<close> calls, first call first.\<close>

definition setActiveAll ::
  "string list \<Rightarrow> 'a AIPersonality_v1_scheme list \<Rightarrow> 'a AIPersonality_v1_scheme list" where
  "setActiveAll pids registry = foldl (\<lambda>r pid. setActivePersonality pid r) registry pids"

text \<open>The ids of the profiles whose \<open>isActive\<close> is true.\<close>

definition activeIds :: "'a AIPersonality_v1_scheme list \<Rightarrow> string list" where
  "activeIds registry = map ai_id (filter ai_isActive registry)"

section \<open>Writing sessions\<close>

record WritingSession =
  ws_id :: string
  ws_title :: string
  ws_contentId :: "string option"
  ws_mood :: "string option"
  ws_startTime :: timestamp
  ws_endTime :: "timestamp option"
  ws_content :: string
  ws_wordCount :: int
  ws_totalWords :: int
  ws_wordsAdded :: int
  ws_timeSpent :: int
  ws_productivity :: int
  ws_suggestions :: "string list"
  ws_feedback :: "string list"
  ws_aiInteractions :: int
  ws_isActive :: bool

text \<open>
  Modelled from the spec: \<open>validateMood\<close> is not in the sources. Section 4.4 of the
  specification: it returns the candidate if it belongs to an enumerated allowed
  vocabulary, otherwise nothing. The vocabulary itself is not given and is the
  parameter \<open>vocabulary\<close>; a call without a mood has no candidate.
\<close>

definition validateMood :: "string list \<Rightarrow> string option \<Rightarrow> string option" where
  "validateMood vocabulary candidate =
     (case candidate of
        None \<Rightarrow> None
      | Some m \<Rightarrow> (if m \<in> set vocabulary then Some m else None))"

text \<open>\<open>x || 'neutral'\<close> on an optional string.\<close>

definition orNeutral :: "string option \<Rightarrow> string" where
  "orNeutral x = (case x of None \<Rightarrow> ''neutral'' | Some m \<Rightarrow> (if m = [] then ''neutral'' else m))"

text \<open>
  The object literal of \<open>startWritingSession\<close>. \<open>sessionId\<close> is the generated id
  string and \<open>now\<close> the reading of \<open>Date.now()\<close> for \<open>startTime\<close>. The sources
  give the literal from \<open>id\<close> to \<open>productivity\<close>.
\<close>

text \<open>
  Modelled from the spec: the fields of the literal after \<open>productivity\<close>
  (\<open>suggestions\<close>, \<open>feedback\<close>, \<open>aiInteractions\<close>, \<open>isActive\<close>) are not in the
  sources. Section 4.4 of the specification: all numeric metrics zeroed and
  \<open>isActive = true\<close>; the lists start empty and the session has no end time.
\<close>

definition startWritingSession ::
  "string list \<Rightarrow> string \<Rightarrow> string \<Rightarrow> string option \<Rightarrow> string option \<Rightarrow> timestamp
     \<Rightarrow> WritingSession" where
  "startWritingSession vocabulary sessionId title contentId mood now =
     \<lparr> ws_id = sessionId,
       ws_title = title,
       ws_contentId = contentId,
       ws_mood = Some (orNeutral (validateMood vocabulary mood)),
       ws_startTime = now,
       ws_endTime = None,
       ws_content = [],
       ws_wordCount = 0,
       ws_totalWords = 0,
       ws_wordsAdded = 0,
       ws_timeSpent = 0,
       ws_productivity = 0,
       ws_suggestions = [],
       ws_feedback = [],
       ws_aiInteractions = 0,
       ws_isActive = True \<rparr>"

text \<open>
  Modelled from the spec: the recomputation of the derived metrics is not in the
  sources. Section 4.4 of the specification: \<open>wordCount\<close> from the current content;
  \<open>wordsAdded = max(0, wordCount - totalWords-at-last-checkpoint)\<close>; \<open>totalWords\<close>
  advances to track the cumulative words written. The checkpoint is the previous
  recomputation, and the cumulative count grows by the words added. How words are
  counted is not given: \<open>countWords\<close> is a parameter.
\<close>

definition recomputeMetrics ::
  "(string \<Rightarrow> nat) \<Rightarrow> string \<Rightarrow> WritingSession \<Rightarrow> WritingSession" where
  "recomputeMetrics countWords content s =
     (let wordCount = int (countWords content);
          wordsAdded = max 0 (wordCount - ws_totalWords s)
      in s\<lparr> ws_content := content,
            ws_wordCount := wordCount,
            ws_wordsAdded := wordsAdded,
            ws_totalWords := ws_totalWords s + wordsAdded \<rparr>)"

text \<open>A session's content changing several times, first change first.\<close>

definition contentChanges ::
  "(string \<Rightarrow> nat) \<Rightarrow> string list \<Rightarrow> WritingSession \<Rightarrow> WritingSession" where
  "contentChanges countWords contents s =
     foldl (\<lambda>s' content. recomputeMetrics countWords content s') s contents"

section \<open>Sample data\<close>

text \<open>Concrete stories, projects and states on which the theorems are instantiated.\<close>

definition sampleStory :: "string \<Rightarrow> string \<Rightarrow> timestamp \<Rightarrow> Story" where
  "sampleStory sid pid t =
     \<lparr> s_id = sid, s_title = ''Chapter'', s_description = [], s_projectId = pid,
       s_content = [], s_wordCount = 0, s_type = ''story'', s_createdAt = t,
       s_updatedAt = t, s_isArchived = False, s_order = 0 \<rparr>"

definition sampleCharacter :: "string \<Rightarrow> string \<Rightarrow> timestamp \<Rightarrow> Character" where
  "sampleCharacter cid pid t =
     \<lparr> c_id = cid, c_name = ''Ada'', c_description = [], c_projectId = pid,
       c_role = ''supporting'', c_age = None, c_appearance = [], c_personality = [],
       c_backstory = [], c_goals = [], c_createdAt = t, c_updatedAt = t \<rparr>"

definition sampleProject ::
  "string \<Rightarrow> timestamp \<Rightarrow> Story list option \<Rightarrow> Character list option \<Rightarrow> Project" where
  "sampleProject pid t ss cs =
     \<lparr> p_id = pid, p_title = ''Novel'', p_description = ''Old words'', p_createdAt = t,
       p_updatedAt = t, p_lastEditedAt = t, p_wordCount = 0, p_stories = ss,
       p_characters = cs \<rparr>"

definition sampleState :: "Project list \<Rightarrow> ServiceState" where
  "sampleState projects = \<lparr> storage = projects, writes = 0, events = [] \<rparr>"

section \<open>Facts about \<open>findIndex\<close>\<close>

lemma findIndex_None_iff: "findIndex P xs = None \<longleftrightarrow> (\<forall>x \<in> set xs. \<not> P x)"
  by (induction xs) auto

lemma findIndex_Some_D:
  "findIndex P xs = Some i \<Longrightarrow>
     i < length xs \<and> P (xs ! i) \<and> (\<forall>j < i. \<not> P (xs ! j))"
proof (induction xs arbitrary: i)
  case Nil
  then show ?case by simp
next
  case (Cons x xs)
  show ?case
  proof (cases "P x")
    case True
    with Cons.prems show ?thesis by simp
  next
    case False
    with Cons.prems obtain k where k: "findIndex P xs = Some k" and i: "i = Suc k"
      by auto
    from Cons.IH [OF k] have ih: "k < length xs" "P (xs ! k)" "\<forall>j < k. \<not> P (xs ! j)"
      by auto
    have "\<not> P ((x # xs) ! j)" if "j < i" for j
      using that False ih(3) i by (cases j) auto
    with ih i show ?thesis by simp
  qed
qed

section \<open>Creation against an unknown project\<close>

text \<open>
  C10. For every \<open>createCharacter\<close> call, whether or not the project exists, the
  returned character has role \<open>supporting\<close>, no age, empty appearance, personality,
  backstory and goals, and \<open>createdAt = updatedAt\<close>; with the description omitted
  its description is the empty string.
\<close>

theorem createCharacter_defaults:
  "c_role (fst (createCharacter newId data now st)) = ''supporting''
   \<and> c_age (fst (createCharacter newId data now st)) = None
   \<and> c_appearance (fst (createCharacter newId data now st)) = []
   \<and> c_personality (fst (createCharacter newId data now st)) = []
   \<and> c_backstory (fst (createCharacter newId data now st)) = []
   \<and> c_goals (fst (createCharacter newId data now st)) = []
   \<and> c_createdAt (fst (createCharacter newId data now st))
       = c_updatedAt (fst (createCharacter newId data now st))
   \<and> c_description
        (fst (createCharacter newId (data\<lparr>cc_description := None\<rparr>) now st)) = []"
  by (simp add: createCharacter_def newCharacter_def orEmpty_def Let_def
      split: option.split)

text \<open>
  C3. When the project id of a \<open>createStory\<close> or \<open>createCharacter\<close> call matches no
  project of the loaded snapshot, the new entity is built and returned and the
  service state is the one before the call: the stored snapshot is the same, no save
  happened, no event was emitted.
\<close>

theorem create_orphan_not_persisted:
  "((\<forall>p \<in> set (storage st). p_id p \<noteq> cs_projectId sdata) \<longrightarrow>
      createStory newId sdata now st = (newStory newId sdata now, st))
   \<and> ((\<forall>p \<in> set (storage st). p_id p \<noteq> cc_projectId cdata) \<longrightarrow>
      createCharacter newId' cdata now' st = (newCharacter newId' cdata now', st))"
  by (simp add: createStory_def createCharacter_def getAllProjects_def Let_def
      findIndex_None_iff [THEN iffD2])

theorem create_orphan_not_persisted_witness:
  "(let st = sampleState [sampleProject ''p1'' 1 None None];
        sdata = \<lparr>cs_title = ''Lost'', cs_description = None, cs_projectId = ''p9''\<rparr>;
        cdata = \<lparr>cc_name = ''Nobody'', cc_description = None, cc_projectId = ''p9''\<rparr>
    in createStory ''s1'' sdata 7 st = (newStory ''s1'' sdata 7, st)
       \<and> createCharacter ''c1'' cdata 8 st = (newCharacter ''c1'' cdata 8, st)
       \<and> storage (snd (createStory ''s1'' sdata 7 st)) = [sampleProject ''p1'' 1 None None]
       \<and> writes (snd (createStory ''s1'' sdata 7 st)) = 0)"
proof -
  let ?st = "sampleState [sampleProject ''p1'' 1 None None]"
  let ?sdata = "\<lparr>cs_title = ''Lost'', cs_description = None, cs_projectId = ''p9''\<rparr>"
  let ?cdata = "\<lparr>cc_name = ''Nobody'', cc_description = None, cc_projectId = ''p9''\<rparr>"
  have absent: "\<forall>p \<in> set (storage ?st). p_id p \<noteq> ''p9''"
    by (simp add: sampleState_def sampleProject_def)
  from create_orphan_not_persisted
         [of ?st ?sdata "''s1''" 7 ?cdata "''c1''" 8] absent
  show ?thesis
    by (simp add: Let_def sampleState_def)
qed

section \<open>Facts about the project scan\<close>

lemma scanProjects_None_iff:
  "scanProjects hit i ps = None \<longleftrightarrow> (\<forall>p \<in> set ps. hit p = None)"
  by (induction ps arbitrary: i) (auto split: option.splits)

lemma scanProjects_Some_D:
  "scanProjects hit i ps = Some (j, r) \<Longrightarrow>
     i \<le> j \<and> j - i < length ps \<and> hit (ps ! (j - i)) = Some r
     \<and> (\<forall>m < j - i. hit (ps ! m) = None)"
proof (induction ps arbitrary: i)
  case Nil
  then show ?case by simp
next
  case (Cons p ps)
  show ?case
  proof (cases "hit p")
    case (Some found)
    with Cons.prems show ?thesis by simp
  next
    case None
    with Cons.prems have rest: "scanProjects hit (Suc i) ps = Some (j, r)"
      by simp
    from Cons.IH [OF rest]
    have ih: "Suc i \<le> j" "j - Suc i < length ps" "hit (ps ! (j - Suc i)) = Some r"
      "\<forall>m < j - Suc i. hit (ps ! m) = None"
      by auto
    from ih(1) have step: "j - i = Suc (j - Suc i)"
      by simp
    have "hit ((p # ps) ! m) = None" if "m < j - i" for m
      using that None ih(4) step by (cases m) auto
    with ih step show ?thesis by simp
  qed
qed

lemma scanProjects_0_Some_D:
  "scanProjects hit 0 ps = Some (j, r) \<Longrightarrow>
     j < length ps \<and> hit (ps ! j) = Some r \<and> (\<forall>m < j. hit (ps ! m) = None)"
  using scanProjects_Some_D [of hit 0 ps j r] by simp

lemma findIndex_key_None_iff:
  "findIndex (\<lambda>x. f x = v) xs = None \<longleftrightarrow> v \<notin> f ` set xs"
  by (auto simp: findIndex_None_iff)

lemma storyHit_None_iff:
  "storyHit sid p = None \<longleftrightarrow> sid \<notin> set (map s_id (storiesOf p))"
proof (cases "p_stories p")
  case None
  then show ?thesis by (simp add: storyHit_def storiesOf_def)
next
  case (Some ss)
  then show ?thesis
    by (cases "findIndex (\<lambda>s. s_id s = sid) ss")
       (simp_all add: storyHit_def storiesOf_def findIndex_key_None_iff [symmetric])
qed

lemma storyHit_Some_D:
  "storyHit sid p = Some (ss, k) \<Longrightarrow>
     p_stories p = Some ss \<and> k < length ss \<and> s_id (ss ! k) = sid
     \<and> (\<forall>m < k. s_id (ss ! m) \<noteq> sid)"
  by (auto simp: storyHit_def split: option.splits dest: findIndex_Some_D)

lemma characterHit_None_iff:
  "characterHit cid p = None \<longleftrightarrow> cid \<notin> set (map c_id (charactersOf p))"
proof (cases "p_characters p")
  case None
  then show ?thesis by (simp add: characterHit_def charactersOf_def)
next
  case (Some cs)
  then show ?thesis
    by (cases "findIndex (\<lambda>c. c_id c = cid) cs")
       (simp_all add: characterHit_def charactersOf_def findIndex_key_None_iff [symmetric])
qed

lemma characterHit_Some_D:
  "characterHit cid p = Some (cs, k) \<Longrightarrow>
     p_characters p = Some cs \<and> k < length cs \<and> c_id (cs ! k) = cid
     \<and> (\<forall>m < k. c_id (cs ! m) \<noteq> cid)"
  by (auto simp: characterHit_def split: option.splits dest: findIndex_Some_D)

lemma scan_stories_None_iff:
  "scanProjects (storyHit sid) 0 ps = None \<longleftrightarrow> sid \<notin> set (storyIds ps)"
  by (simp add: scanProjects_None_iff storyHit_None_iff storyIds_def)

lemma scan_characters_None_iff:
  "scanProjects (characterHit cid) 0 ps = None \<longleftrightarrow> cid \<notin> set (characterIds ps)"
  by (simp add: scanProjects_None_iff characterHit_None_iff characterIds_def)

section \<open>Updating a story\<close>

text \<open>
  C2. When some project of the loaded snapshot contains a story with the id,
  \<open>updateStory\<close> takes the first project \<open>i\<close> that contains one and the first
  such story \<open>k\<close> of its list; the updated story has, field by field, the value of
  the updates where they give one and the old value where they give none, and the
  clock reading as its \<open>updatedAt\<close>; the whole snapshot is saved once with that
  story replaced (and the project stamped), and the updated story is returned. When no
  project contains the id it returns null and the state is untouched.
\<close>

theorem updateStory_first_match:
  "(storyId \<in> set (storyIds (storage st)) \<longrightarrow>
      (\<exists>i stories k updated.
          i < length (storage st) \<and> p_stories (storage st ! i) = Some stories
        \<and> k < length stories \<and> s_id (stories ! k) = storyId
        \<and> (\<forall>j < i. storyId \<notin> set (map s_id (storiesOf (storage st ! j))))
        \<and> (\<forall>m < k. s_id (stories ! m) \<noteq> storyId)
        \<and> s_id updated
            = (case su_id updates of None \<Rightarrow> s_id (stories ! k) | Some v \<Rightarrow> v)
        \<and> s_title updated
            = (case su_title updates of None \<Rightarrow> s_title (stories ! k) | Some v \<Rightarrow> v)
        \<and> s_description updated
            = (case su_description updates of None \<Rightarrow> s_description (stories ! k)
               | Some v \<Rightarrow> v)
        \<and> s_projectId updated
            = (case su_projectId updates of None \<Rightarrow> s_projectId (stories ! k)
               | Some v \<Rightarrow> v)
        \<and> s_content updated
            = (case su_content updates of None \<Rightarrow> s_content (stories ! k) | Some v \<Rightarrow> v)
        \<and> s_wordCount updated
            = (case su_wordCount updates of None \<Rightarrow> s_wordCount (stories ! k)
               | Some v \<Rightarrow> v)
        \<and> s_type updated
            = (case su_type updates of None \<Rightarrow> s_type (stories ! k) | Some v \<Rightarrow> v)
        \<and> s_createdAt updated
            = (case su_createdAt updates of None \<Rightarrow> s_createdAt (stories ! k)
               | Some v \<Rightarrow> v)
        \<and> s_isArchived updated
            = (case su_isArchived updates of None \<Rightarrow> s_isArchived (stories ! k)
               | Some v \<Rightarrow> v)
        \<and> s_order updated
            = (case su_order updates of None \<Rightarrow> s_order (stories ! k) | Some v \<Rightarrow> v)
        \<and> s_updatedAt updated = now1
        \<and> updateStory storyId updates now1 now2 st =
            (Some updated,
             st\<lparr>storage := (storage st)[i := (storage st ! i)
                    \<lparr>p_stories := Some (stories[k := updated]), p_updatedAt := now2\<rparr>],
                writes := Suc (writes st)\<rparr>)))
   \<and> (storyId \<notin> set (storyIds (storage st)) \<longrightarrow>
        updateStory storyId updates now1 now2 st = (None, st))"
proof (intro conjI impI)
  assume present: "storyId \<in> set (storyIds (storage st))"
  then have "scanProjects (storyHit storyId) 0 (storage st) \<noteq> None"
    by (simp add: scan_stories_None_iff)
  then obtain i stories k where
    found: "scanProjects (storyHit storyId) 0 (storage st) = Some (i, stories, k)"
    by auto
  from scanProjects_0_Some_D [OF found]
  have i: "i < length (storage st)"
    and hit: "storyHit storyId (storage st ! i) = Some (stories, k)"
    and before: "\<forall>m < i. storyHit storyId (storage st ! m) = None"
    by auto
  from storyHit_Some_D [OF hit]
  have ss: "p_stories (storage st ! i) = Some stories" "k < length stories"
    "s_id (stories ! k) = storyId" "\<forall>m < k. s_id (stories ! m) \<noteq> storyId"
    by auto
  from before have earlier: "\<forall>j < i. storyId \<notin> set (map s_id (storiesOf (storage st ! j)))"
    by (simp add: storyHit_None_iff)
  define updated where "updated = mergeStory (stories ! k) updates now1"
  have fields:
    "s_id updated = (case su_id updates of None \<Rightarrow> s_id (stories ! k) | Some v \<Rightarrow> v)"
    "s_title updated
       = (case su_title updates of None \<Rightarrow> s_title (stories ! k) | Some v \<Rightarrow> v)"
    "s_description updated
       = (case su_description updates of None \<Rightarrow> s_description (stories ! k) | Some v \<Rightarrow> v)"
    "s_projectId updated
       = (case su_projectId updates of None \<Rightarrow> s_projectId (stories ! k) | Some v \<Rightarrow> v)"
    "s_content updated
       = (case su_content updates of None \<Rightarrow> s_content (stories ! k) | Some v \<Rightarrow> v)"
    "s_wordCount updated
       = (case su_wordCount updates of None \<Rightarrow> s_wordCount (stories ! k) | Some v \<Rightarrow> v)"
    "s_type updated
       = (case su_type updates of None \<Rightarrow> s_type (stories ! k) | Some v \<Rightarrow> v)"
    "s_createdAt updated
       = (case su_createdAt updates of None \<Rightarrow> s_createdAt (stories ! k) | Some v \<Rightarrow> v)"
    "s_isArchived updated
       = (case su_isArchived updates of None \<Rightarrow> s_isArchived (stories ! k) | Some v \<Rightarrow> v)"
    "s_order updated
       = (case su_order updates of None \<Rightarrow> s_order (stories ! k) | Some v \<Rightarrow> v)"
    by (simp_all add: updated_def mergeStory_def spread_def)
  have stamp: "s_updatedAt updated = now1"
    by (simp add: updated_def mergeStory_def)
  have run: "updateStory storyId updates now1 now2 st =
      (Some updated,
       st\<lparr>storage := (storage st)[i := (storage st ! i)
              \<lparr>p_stories := Some (stories[k := updated]), p_updatedAt := now2\<rparr>],
          writes := Suc (writes st)\<rparr>)"
    using found
    by (simp add: updateStory_def getAllProjects_def saveProjects_def Let_def updated_def)
  from i ss earlier fields stamp run
  show "\<exists>i stories k updated.
          i < length (storage st) \<and> p_stories (storage st ! i) = Some stories
        \<and> k < length stories \<and> s_id (stories ! k) = storyId
        \<and> (\<forall>j < i. storyId \<notin> set (map s_id (storiesOf (storage st ! j))))
        \<and> (\<forall>m < k. s_id (stories ! m) \<noteq> storyId)
        \<and> s_id updated
            = (case su_id updates of None \<Rightarrow> s_id (stories ! k) | Some v \<Rightarrow> v)
        \<and> s_title updated
            = (case su_title updates of None \<Rightarrow> s_title (stories ! k) | Some v \<Rightarrow> v)
        \<and> s_description updated
            = (case su_description updates of None \<Rightarrow> s_description (stories ! k)
               | Some v \<Rightarrow> v)
        \<and> s_projectId updated
            = (case su_projectId updates of None \<Rightarrow> s_projectId (stories ! k)
               | Some v \<Rightarrow> v)
        \<and> s_content updated
            = (case su_content updates of None \<Rightarrow> s_content (stories ! k) | Some v \<Rightarrow> v)
        \<and> s_wordCount updated
            = (case su_wordCount updates of None \<Rightarrow> s_wordCount (stories ! k)
               | Some v \<Rightarrow> v)
        \<and> s_type updated
            = (case su_type updates of None \<Rightarrow> s_type (stories ! k) | Some v \<Rightarrow> v)
        \<and> s_createdAt updated
            = (case su_createdAt updates of None \<Rightarrow> s_createdAt (stories ! k)
               | Some v \<Rightarrow> v)
        \<and> s_isArchived updated
            = (case su_isArchived updates of None \<Rightarrow> s_isArchived (stories ! k)
               | Some v \<Rightarrow> v)
        \<and> s_order updated
            = (case su_order updates of None \<Rightarrow> s_order (stories ! k) | Some v \<Rightarrow> v)
        \<and> s_updatedAt updated = now1
        \<and> updateStory storyId updates now1 now2 st =
            (Some updated,
             st\<lparr>storage := (storage st)[i := (storage st ! i)
                    \<lparr>p_stories := Some (stories[k := updated]), p_updatedAt := now2\<rparr>],
                writes := Suc (writes st)\<rparr>)"
    by blast
next
  assume "storyId \<notin> set (storyIds (storage st))"
  then have "scanProjects (storyHit storyId) 0 (storage st) = None"
    by (simp add: scan_stories_None_iff)
  then show "updateStory storyId updates now1 now2 st = (None, st)"
    by (simp add: updateStory_def getAllProjects_def)
qed

theorem updateStory_first_match_witness:
  "(let st = sampleState
       [sampleProject ''p1'' 1 (Some [sampleStory ''a'' ''p1'' 1]) None,
        sampleProject ''p2'' 2 (Some [sampleStory ''b'' ''p2'' 2, sampleStory ''c'' ''p2'' 3]) None];
        updates = (titleOnly ''T2'')\<lparr>su_content := Some ''Once upon a time''\<rparr>
    in ''c'' \<in> set (storyIds (storage st))
       \<and> (\<exists>i stories k updated.
             i < length (storage st) \<and> p_stories (storage st ! i) = Some stories
           \<and> k < length stories \<and> s_id (stories ! k) = ''c''
           \<and> s_title updated = ''T2'' \<and> s_content updated = ''Once upon a time''
           \<and> s_description updated = s_description (stories ! k)
           \<and> s_createdAt updated = s_createdAt (stories ! k)
           \<and> s_updatedAt updated = 5
           \<and> updateStory ''c'' updates 5 6 st =
               (Some updated,
                st\<lparr>storage := (storage st)[i := (storage st ! i)
                       \<lparr>p_stories := Some (stories[k := updated]), p_updatedAt := 6\<rparr>],
                   writes := Suc (writes st)\<rparr>))
       \<and> ''z'' \<notin> set (storyIds (storage st))
       \<and> updateStory ''z'' updates 5 6 st = (None, st)
       \<and> fst (updateStory ''c'' updates 5 6 st)
           = Some ((sampleStory ''c'' ''p2'' 3)
                     \<lparr>s_title := ''T2'', s_content := ''Once upon a time'', s_updatedAt := 5\<rparr>)
       \<and> map storiesOf (storage (snd (updateStory ''c'' updates 5 6 st)))
           = [[sampleStory ''a'' ''p1'' 1],
              [sampleStory ''b'' ''p2'' 2,
               (sampleStory ''c'' ''p2'' 3)
                 \<lparr>s_title := ''T2'', s_content := ''Once upon a time'', s_updatedAt := 5\<rparr>]]
       \<and> writes (snd (updateStory ''c'' updates 5 6 st)) = 1)"
proof -
  let ?st = "sampleState
       [sampleProject ''p1'' 1 (Some [sampleStory ''a'' ''p1'' 1]) None,
        sampleProject ''p2'' 2 (Some [sampleStory ''b'' ''p2'' 2, sampleStory ''c'' ''p2'' 3]) None]"
  let ?u = "(titleOnly ''T2'')\<lparr>su_content := Some ''Once upon a time''\<rparr>"
  have present: "''c'' \<in> set (storyIds (storage ?st))"
    by (simp add: sampleState_def sampleProject_def sampleStory_def storyIds_def storiesOf_def)
  have absent: "''z'' \<notin> set (storyIds (storage ?st))"
    by (simp add: sampleState_def sampleProject_def sampleStory_def storyIds_def storiesOf_def)
  have u: "su_title ?u = Some ''T2''" "su_content ?u = Some ''Once upon a time''"
    "su_description ?u = None" "su_createdAt ?u = None"
    by (simp_all add: titleOnly_def)
  from updateStory_first_match [of "''c''" ?st ?u 5 6] present
  obtain i stories k updated where
    w: "i < length (storage ?st)" "p_stories (storage ?st ! i) = Some stories"
      "k < length stories" "s_id (stories ! k) = ''c''"
    and f: "s_title updated
         = (case su_title ?u of None \<Rightarrow> s_title (stories ! k) | Some v \<Rightarrow> v)"
      "s_content updated
         = (case su_content ?u of None \<Rightarrow> s_content (stories ! k) | Some v \<Rightarrow> v)"
      "s_description updated
         = (case su_description ?u of None \<Rightarrow> s_description (stories ! k) | Some v \<Rightarrow> v)"
      "s_createdAt updated
         = (case su_createdAt ?u of None \<Rightarrow> s_createdAt (stories ! k) | Some v \<Rightarrow> v)"
      "s_updatedAt updated = 5"
    and run: "updateStory ''c'' ?u 5 6 ?st =
               (Some updated,
                ?st\<lparr>storage := (storage ?st)[i := (storage ?st ! i)
                       \<lparr>p_stories := Some (stories[k := updated]), p_updatedAt := 6\<rparr>],
                   writes := Suc (writes ?st)\<rparr>)"
    by blast
  from f u have f': "s_title updated = ''T2''" "s_content updated = ''Once upon a time''"
    "s_description updated = s_description (stories ! k)"
    "s_createdAt updated = s_createdAt (stories ! k)" "s_updatedAt updated = 5"
    by simp_all
  from w f' run have hit: "\<exists>i stories k updated.
             i < length (storage ?st) \<and> p_stories (storage ?st ! i) = Some stories
           \<and> k < length stories \<and> s_id (stories ! k) = ''c''
           \<and> s_title updated = ''T2'' \<and> s_content updated = ''Once upon a time''
           \<and> s_description updated = s_description (stories ! k)
           \<and> s_createdAt updated = s_createdAt (stories ! k)
           \<and> s_updatedAt updated = 5
           \<and> updateStory ''c'' ?u 5 6 ?st =
               (Some updated,
                ?st\<lparr>storage := (storage ?st)[i := (storage ?st ! i)
                       \<lparr>p_stories := Some (stories[k := updated]), p_updatedAt := 6\<rparr>],
                   writes := Suc (writes ?st)\<rparr>)"
    by blast
  from updateStory_first_match [of "''z''" ?st ?u 5 6] absent
  have miss: "updateStory ''z'' ?u 5 6 ?st = (None, ?st)"
    by blast
  have scan: "scanProjects (storyHit ''c'') 0 (storage ?st)
      = Some (1, [sampleStory ''b'' ''p2'' 2, sampleStory ''c'' ''p2'' 3], 1)"
    by (simp add: storyHit_def sampleState_def sampleProject_def sampleStory_def)
  have merged: "mergeStory (sampleStory ''c'' ''p2'' 3) ?u 5
      = (sampleStory ''c'' ''p2'' 3)
          \<lparr>s_title := ''T2'', s_content := ''Once upon a time'', s_updatedAt := 5\<rparr>"
    by (simp add: mergeStory_def titleOnly_def spread_def sampleStory_def)
  have returned: "fst (updateStory ''c'' ?u 5 6 ?st)
           = Some ((sampleStory ''c'' ''p2'' 3)
                     \<lparr>s_title := ''T2'', s_content := ''Once upon a time'', s_updatedAt := 5\<rparr>)"
    using scan merged
    by (simp add: updateStory_def getAllProjects_def Let_def)
  have stored: "map storiesOf (storage (snd (updateStory ''c'' ?u 5 6 ?st)))
           = [[sampleStory ''a'' ''p1'' 1],
              [sampleStory ''b'' ''p2'' 2,
               (sampleStory ''c'' ''p2'' 3)
                 \<lparr>s_title := ''T2'', s_content := ''Once upon a time'', s_updatedAt := 5\<rparr>]]"
    using scan merged
    by (simp add: updateStory_def getAllProjects_def saveProjects_def Let_def
        sampleState_def sampleProject_def storiesOf_def)
  have saved: "writes (snd (updateStory ''c'' ?u 5 6 ?st)) = 1"
    using scan
    by (simp add: updateStory_def getAllProjects_def saveProjects_def Let_def sampleState_def)
  from present hit absent miss returned stored saved show ?thesis
    unfolding Let_def by blast
qed

section \<open>Updating a project\<close>

lemma updateProjectSync_found:
  assumes "findIndex (\<lambda>p. p_id p = pid) (storage st) = Some index"
  shows "updateProjectSync calc pid data now1 now2 st =
     (let merged = (mergeProject (storage st ! index) data)
                     \<lparr>p_updatedAt := now1, p_lastEditedAt := now2\<rparr>;
          updated = (if truthy (d_title data) \<or> truthy (d_description data)
                     then merged\<lparr>p_wordCount := calc st pid\<rparr> else merged)
      in (Some updated,
          \<lparr>storage = (storage st)[index := updated], writes = Suc (writes st),
           events = events st @ [(''project-updated'', updated)]\<rparr>))"
  using assms
  by (simp add: updateProjectSync_def getAllProjects_def saveProjects_def emit_def Let_def)

lemma updateProjectSync_absent:
  assumes "\<forall>p \<in> set (storage st). p_id p \<noteq> pid"
  shows "updateProjectSync calc pid data now1 now2 st = (None, st)"
proof -
  from assms have "findIndex (\<lambda>p. p_id p = pid) (storage st) = None"
    by (simp add: findIndex_None_iff)
  then show ?thesis
    by (simp add: updateProjectSync_def getAllProjects_def)
qed

text \<open>
  What \<open>updateProjectSync\<close> does. For a project id present in the loaded snapshot
  it takes the first project with that id, merges the partial's fields into it, stamps
  \<open>updatedAt\<close> and \<open>lastEditedAt\<close> with the clock, saves the snapshot with that
  project replaced, emits \<open>project-updated\<close> with the updated project and returns
  it; \<open>wordCount\<close> is set to \<open>calculateProjectWordCount(id)\<close> under the guard
  \<open>data.title || data.description\<close>. For an id absent from the snapshot it returns
  null and neither saves nor emits.
\<close>

lemma updateProjectSync_merges_stamps_saves:
  "(pid \<in> p_id ` set (storage st) \<longrightarrow>
      (\<exists>index updated.
          index < length (storage st) \<and> p_id (storage st ! index) = pid
        \<and> (\<forall>j < index. p_id (storage st ! j) \<noteq> pid)
        \<and> updateProjectSync calc pid data now1 now2 st =
            (Some updated,
             \<lparr>storage = (storage st)[index := updated], writes = Suc (writes st),
              events = events st @ [(''project-updated'', updated)]\<rparr>)
        \<and> p_id updated = spread (p_id (storage st ! index)) (d_id data)
        \<and> p_title updated = spread (p_title (storage st ! index)) (d_title data)
        \<and> p_description updated
            = spread (p_description (storage st ! index)) (d_description data)
        \<and> p_createdAt updated = spread (p_createdAt (storage st ! index)) (d_createdAt data)
        \<and> p_stories updated
            = (case d_stories data of None \<Rightarrow> p_stories (storage st ! index)
               | Some ss \<Rightarrow> Some ss)
        \<and> p_characters updated
            = (case d_characters data of None \<Rightarrow> p_characters (storage st ! index)
               | Some cs \<Rightarrow> Some cs)
        \<and> p_updatedAt updated = now1
        \<and> p_lastEditedAt updated = now2
        \<and> p_wordCount updated
            = (if truthy (d_title data) \<or> truthy (d_description data) then calc st pid
               else spread (p_wordCount (storage st ! index)) (d_wordCount data))))
   \<and> (pid \<notin> p_id ` set (storage st) \<longrightarrow>
        updateProjectSync calc pid data now1 now2 st = (None, st))"
proof (intro conjI impI)
  assume "pid \<in> p_id ` set (storage st)"
  then have "findIndex (\<lambda>p. p_id p = pid) (storage st) \<noteq> None"
    by (auto simp: findIndex_None_iff)
  then obtain index where found: "findIndex (\<lambda>p. p_id p = pid) (storage st) = Some index"
    by auto
  from findIndex_Some_D [OF found]
  have index: "index < length (storage st)" "p_id (storage st ! index) = pid"
    "\<forall>j < index. p_id (storage st ! j) \<noteq> pid"
    by auto
  define merged where "merged = (mergeProject (storage st ! index) data)
                     \<lparr>p_updatedAt := now1, p_lastEditedAt := now2\<rparr>"
  define updated where "updated = (if truthy (d_title data) \<or> truthy (d_description data)
                     then merged\<lparr>p_wordCount := calc st pid\<rparr> else merged)"
  have run: "updateProjectSync calc pid data now1 now2 st =
            (Some updated,
             \<lparr>storage = (storage st)[index := updated], writes = Suc (writes st),
              events = events st @ [(''project-updated'', updated)]\<rparr>)"
    using updateProjectSync_found [OF found, of calc data now1 now2]
    by (simp add: Let_def merged_def updated_def)
  have fields:
    "p_id updated = spread (p_id (storage st ! index)) (d_id data)"
    "p_title updated = spread (p_title (storage st ! index)) (d_title data)"
    "p_description updated = spread (p_description (storage st ! index)) (d_description data)"
    "p_createdAt updated = spread (p_createdAt (storage st ! index)) (d_createdAt data)"
    "p_stories updated
       = (case d_stories data of None \<Rightarrow> p_stories (storage st ! index) | Some ss \<Rightarrow> Some ss)"
    "p_characters updated
       = (case d_characters data of None \<Rightarrow> p_characters (storage st ! index)
          | Some cs \<Rightarrow> Some cs)"
    by (simp_all add: updated_def merged_def mergeProject_def)
  have stamps: "p_updatedAt updated = now1" "p_lastEditedAt updated = now2"
    by (simp_all add: updated_def merged_def)
  have count: "p_wordCount updated
            = (if truthy (d_title data) \<or> truthy (d_description data) then calc st pid
               else spread (p_wordCount (storage st ! index)) (d_wordCount data))"
    by (simp add: updated_def merged_def mergeProject_def)
  from index run fields stamps count
  show "\<exists>index updated.
          index < length (storage st) \<and> p_id (storage st ! index) = pid
        \<and> (\<forall>j < index. p_id (storage st ! j) \<noteq> pid)
        \<and> updateProjectSync calc pid data now1 now2 st =
            (Some updated,
             \<lparr>storage = (storage st)[index := updated], writes = Suc (writes st),
              events = events st @ [(''project-updated'', updated)]\<rparr>)
        \<and> p_id updated = spread (p_id (storage st ! index)) (d_id data)
        \<and> p_title updated = spread (p_title (storage st ! index)) (d_title data)
        \<and> p_description updated
            = spread (p_description (storage st ! index)) (d_description data)
        \<and> p_createdAt updated = spread (p_createdAt (storage st ! index)) (d_createdAt data)
        \<and> p_stories updated
            = (case d_stories data of None \<Rightarrow> p_stories (storage st ! index)
               | Some ss \<Rightarrow> Some ss)
        \<and> p_characters updated
            = (case d_characters data of None \<Rightarrow> p_characters (storage st ! index)
               | Some cs \<Rightarrow> Some cs)
        \<and> p_updatedAt updated = now1
        \<and> p_lastEditedAt updated = now2
        \<and> p_wordCount updated
            = (if truthy (d_title data) \<or> truthy (d_description data) then calc st pid
               else spread (p_wordCount (storage st ! index)) (d_wordCount data))"
    by blast
next
  assume "pid \<notin> p_id ` set (storage st)"
  then have "\<forall>p \<in> set (storage st). p_id p \<noteq> pid"
    by auto
  then show "updateProjectSync calc pid data now1 now2 st = (None, st)"
    by (rule updateProjectSync_absent)
qed

lemma updateProjectSync_merges_stamps_saves_example:
  "(let st = sampleState [sampleProject ''p1'' 1 None None];
        calc = (\<lambda>s pid. 2);
        data = noProjectData\<lparr>d_title := Some ''New''\<rparr>
    in ''p1'' \<in> p_id ` set (storage st)
       \<and> (\<exists>index updated.
             updateProjectSync calc ''p1'' data 5 6 st =
               (Some updated,
                \<lparr>storage = (storage st)[index := updated], writes = Suc (writes st),
                 events = events st @ [(''project-updated'', updated)]\<rparr>)
           \<and> p_title updated = ''New'' \<and> p_description updated = ''Old words''
           \<and> p_updatedAt updated = 5 \<and> p_lastEditedAt updated = 6
           \<and> p_wordCount updated = 2)
       \<and> ''p9'' \<notin> p_id ` set (storage st)
       \<and> updateProjectSync calc ''p9'' data 5 6 st = (None, st))"
proof -
  let ?p = "sampleProject ''p1'' 1 None None"
  let ?st = "sampleState [?p]"
  let ?calc = "\<lambda>(s::ServiceState) (pid::string). 2::int"
  let ?data = "noProjectData\<lparr>d_title := Some ''New''\<rparr>"
  have present: "''p1'' \<in> p_id ` set (storage ?st)"
    by (simp add: sampleState_def sampleProject_def)
  have absent: "''p9'' \<notin> p_id ` set (storage ?st)"
    by (simp add: sampleState_def sampleProject_def)
  from updateProjectSync_merges_stamps_saves [of "''p1''" ?st ?calc ?data 5 6] present
  obtain index updated where
    run: "updateProjectSync ?calc ''p1'' ?data 5 6 ?st =
               (Some updated,
                \<lparr>storage = (storage ?st)[index := updated], writes = Suc (writes ?st),
                 events = events ?st @ [(''project-updated'', updated)]\<rparr>)"
    and index: "index < length (storage ?st)"
    and title: "p_title updated = spread (p_title (storage ?st ! index)) (d_title ?data)"
    and descr: "p_description updated
                  = spread (p_description (storage ?st ! index)) (d_description ?data)"
    and stamps: "p_updatedAt updated = 5" "p_lastEditedAt updated = 6"
    and count: "p_wordCount updated
            = (if truthy (d_title ?data) \<or> truthy (d_description ?data) then ?calc ?st ''p1''
               else spread (p_wordCount (storage ?st ! index)) (d_wordCount ?data))"
    by blast
  from index have index0: "index = 0"
    by (simp add: sampleState_def)
  from title have title': "p_title updated = ''New''"
    by (simp add: spread_def)
  from descr index0 have descr': "p_description updated = ''Old words''"
    by (simp add: spread_def noProjectData_def sampleState_def sampleProject_def)
  from count have count': "p_wordCount updated = 2"
    by (simp add: truthy_def)
  from updateProjectSync_merges_stamps_saves [of "''p9''" ?st ?calc ?data 5 6] absent
  have miss: "updateProjectSync ?calc ''p9'' ?data 5 6 ?st = (None, ?st)"
    by blast
  from present run title' descr' stamps count' absent miss show ?thesis
    unfolding Let_def by blast
qed

text \<open>
  C1. The claim asks for \<open>wordCount\<close> to be recomputed when title or description
  changed, and the code's comment says \<open>Recalculate word count if needed\<close>. The
  guard \<open>data.title || data.description\<close> tests truthiness, so it misses a partial
  that sets the description (or the title) to the empty string: on the project below
  the description changes from \<open>Old words\<close> to the empty string, everything else
  of the claim happens (stamps, one save, one event), and \<open>wordCount\<close> keeps the
  stored 0 where \<open>calculateProjectWordCount\<close> returns 2. With a non-empty new
  description the same call does recompute.
\<close>

theorem updateProjectSync_cleared_description_not_recomputed:
  "p_description (sampleProject ''p1'' 1 None None) = ''Old words''
   \<and> updateProjectSync (\<lambda>s pid. 2) ''p1'' (noProjectData\<lparr>d_description := Some []\<rparr>) 5 6
        (sampleState [sampleProject ''p1'' 1 None None])
      = (Some ((sampleProject ''p1'' 1 None None)
                 \<lparr>p_description := [], p_updatedAt := 5, p_lastEditedAt := 6,
                  p_wordCount := 0\<rparr>),
         \<lparr>storage = [(sampleProject ''p1'' 1 None None)
                        \<lparr>p_description := [], p_updatedAt := 5, p_lastEditedAt := 6,
                         p_wordCount := 0\<rparr>],
          writes = 1,
          events = [(''project-updated'',
                     (sampleProject ''p1'' 1 None None)
                       \<lparr>p_description := [], p_updatedAt := 5, p_lastEditedAt := 6,
                        p_wordCount := 0\<rparr>)]\<rparr>)
   \<and> map_option p_wordCount
        (fst (updateProjectSync (\<lambda>s pid. 2) ''p1''
               (noProjectData\<lparr>d_description := Some ''New words''\<rparr>) 5 6
               (sampleState [sampleProject ''p1'' 1 None None]))) = Some 2"
  by (simp add: updateProjectSync_def getAllProjects_def saveProjects_def emit_def
      sampleState_def sampleProject_def noProjectData_def mergeProject_def spread_def
      truthy_def Let_def)

section \<open>Where the scan stops\<close>

lemma scanProjects_first:
  "i < length ps \<Longrightarrow> hit (ps ! i) = Some r \<Longrightarrow> \<forall>j < i. hit (ps ! j) = None \<Longrightarrow>
     scanProjects hit n ps = Some (n + i, r)"
proof (induction ps arbitrary: i n)
  case Nil
  then show ?case by simp
next
  case (Cons p ps)
  show ?case
  proof (cases i)
    case 0
    with Cons.prems show ?thesis by simp
  next
    case (Suc i')
    from Cons.prems(3) Suc have head: "hit p = None"
      by auto
    from Cons.prems Suc have "i' < length ps" "hit (ps ! i') = Some r"
      "\<forall>j < i'. hit (ps ! j) = None"
      by auto
    from Cons.IH [OF this, of "Suc n"] head Suc show ?thesis
      by simp
  qed
qed

lemma findIndex_snoc_fresh:
  "\<forall>x \<in> set xs. \<not> P x \<Longrightarrow> P y \<Longrightarrow> findIndex P (xs @ [y]) = Some (length xs)"
  by (induction xs) auto

lemma storyIds_split:
  assumes "i < length ps"
  shows "storyIds ps =
     storyIds (take i ps) @ map s_id (storiesOf (ps ! i)) @ storyIds (drop (Suc i) ps)"
proof -
  from assms have "ps = take i ps @ ps ! i # drop (Suc i) ps"
    by (rule id_take_nth_drop)
  then have "storyIds ps = storyIds (take i ps @ ps ! i # drop (Suc i) ps)"
    by simp
  then show ?thesis
    by (simp add: storyIds_def)
qed

lemma storyIds_update:
  assumes "i < length ps"
  shows "storyIds (ps[i := p']) =
     storyIds (take i ps) @ map s_id (storiesOf p') @ storyIds (drop (Suc i) ps)"
proof -
  from assms have "ps[i := p'] = take i ps @ p' # drop (Suc i) ps"
    by (rule upd_conv_take_nth_drop)
  then show ?thesis
    by (simp add: storyIds_def)
qed

lemma characterIds_split:
  assumes "i < length ps"
  shows "characterIds ps =
     characterIds (take i ps) @ map c_id (charactersOf (ps ! i))
       @ characterIds (drop (Suc i) ps)"
proof -
  from assms have "ps = take i ps @ ps ! i # drop (Suc i) ps"
    by (rule id_take_nth_drop)
  then have "characterIds ps = characterIds (take i ps @ ps ! i # drop (Suc i) ps)"
    by simp
  then show ?thesis
    by (simp add: characterIds_def)
qed

lemma characterIds_update:
  assumes "i < length ps"
  shows "characterIds (ps[i := p']) =
     characterIds (take i ps) @ map c_id (charactersOf p') @ characterIds (drop (Suc i) ps)"
proof -
  from assms have "ps[i := p'] = take i ps @ p' # drop (Suc i) ps"
    by (rule upd_conv_take_nth_drop)
  then show ?thesis
    by (simp add: characterIds_def)
qed

text \<open>Removing the one occurrence of a key at index \<open>k\<close> leaves none.\<close>

lemma splice1_removes_single:
  assumes k: "k < length xs" and key: "f (xs ! k) = v"
    and once: "count_list (map f xs) v = 1"
  shows "v \<notin> set (map f (splice1 k xs))"
proof -
  from k have "xs = take k xs @ xs ! k # drop (Suc k) xs"
    by (rule id_take_nth_drop)
  then have "map f xs = map f (take k xs) @ f (xs ! k) # map f (drop (Suc k) xs)"
    by (metis list.simps(9) map_append)
  with once key
  have "count_list (map f (take k xs)) v + count_list (map f (drop (Suc k) xs)) v = 0"
    by simp
  then have "count_list (map f (splice1 k xs)) v = 0"
    by (simp add: splice1_def)
  then show ?thesis
    using count_list_0_iff [of "map f (splice1 k xs)" v] by blast
qed

lemma count_list_pos_mem: "v \<in> set xs \<Longrightarrow> 0 < count_list xs v"
  using count_list_0_iff [of xs v] by auto

lemma deleteStory_twice:
  assumes once: "count_list (storyIds (storage st)) storyId = 1"
  shows "\<exists>i stories k.
      i < length (storage st) \<and> p_stories (storage st ! i) = Some stories
    \<and> k < length stories \<and> s_id (stories ! k) = storyId
    \<and> deleteStory storyId now st =
        (True, st\<lparr>storage := (storage st)[i := (storage st ! i)
                     \<lparr>p_stories := Some (take k stories @ drop (Suc k) stories),
                      p_updatedAt := now\<rparr>],
                  writes := Suc (writes st)\<rparr>)
    \<and> deleteStory storyId now' (snd (deleteStory storyId now st))
        = (False, snd (deleteStory storyId now st))"
proof -
  let ?ps = "storage st"
  from once have "storyId \<in> set (storyIds ?ps)"
    using count_list_0_iff [of "storyIds ?ps" storyId] by auto
  then have "scanProjects (storyHit storyId) 0 ?ps \<noteq> None"
    by (simp add: scan_stories_None_iff)
  then obtain i stories k where
    found: "scanProjects (storyHit storyId) 0 ?ps = Some (i, stories, k)"
    by auto
  from scanProjects_0_Some_D [OF found]
  have i: "i < length ?ps" and hit: "storyHit storyId (?ps ! i) = Some (stories, k)"
    by auto
  from storyHit_Some_D [OF hit]
  have ss: "p_stories (?ps ! i) = Some stories" "k < length stories"
    "s_id (stories ! k) = storyId"
    by auto
  define p' where "p' = (?ps ! i)
      \<lparr>p_stories := Some (splice1 k stories), p_updatedAt := now\<rparr>"
  define st' where "st' = st\<lparr>storage := ?ps[i := p'], writes := Suc (writes st)\<rparr>"
  have first: "deleteStory storyId now st = (True, st')"
    using found
    by (simp add: deleteStory_def getAllProjects_def saveProjects_def Let_def p'_def st'_def)
  have own: "storiesOf (?ps ! i) = stories"
    using ss(1) by (simp add: storiesOf_def)
  from ss(2,3) have "storyId \<in> set (map s_id stories)"
    by (metis length_map nth_map nth_mem)
  then have here: "0 < count_list (map s_id stories) storyId"
    by (rule count_list_pos_mem)
  from once storyIds_split [OF i] own
  have sum: "count_list (storyIds (take i ?ps)) storyId
      + count_list (map s_id stories) storyId
      + count_list (storyIds (drop (Suc i) ?ps)) storyId = 1"
    by simp
  from sum here have outside: "count_list (storyIds (take i ?ps)) storyId = 0"
    "count_list (storyIds (drop (Suc i) ?ps)) storyId = 0"
    and inside: "count_list (map s_id stories) storyId = 1"
    by auto
  from splice1_removes_single [OF ss(2) ss(3) inside]
  have gone: "storyId \<notin> set (map s_id (splice1 k stories))" .
  have "storiesOf p' = splice1 k stories"
    by (simp add: p'_def storiesOf_def)
  with storyIds_update [OF i, of p']
  have "storyIds (?ps[i := p']) =
      storyIds (take i ?ps) @ map s_id (splice1 k stories) @ storyIds (drop (Suc i) ?ps)"
    by simp
  with outside gone have "storyId \<notin> set (storyIds (storage st'))"
    by (simp add: st'_def count_list_0_iff)
  then have "scanProjects (storyHit storyId) 0 (storage st') = None"
    by (simp add: scan_stories_None_iff)
  then have second: "deleteStory storyId now' st' = (False, st')"
    by (simp add: deleteStory_def getAllProjects_def)
  from i ss first second show ?thesis
    unfolding st'_def p'_def splice1_def by auto
qed

lemma deleteCharacter_twice:
  assumes once: "count_list (characterIds (storage st)) characterId = 1"
  shows "\<exists>i characters k.
      i < length (storage st) \<and> p_characters (storage st ! i) = Some characters
    \<and> k < length characters \<and> c_id (characters ! k) = characterId
    \<and> deleteCharacter characterId now st =
        (True, st\<lparr>storage := (storage st)[i := (storage st ! i)
                     \<lparr>p_characters := Some (take k characters @ drop (Suc k) characters),
                      p_updatedAt := now\<rparr>],
                  writes := Suc (writes st)\<rparr>)
    \<and> deleteCharacter characterId now' (snd (deleteCharacter characterId now st))
        = (False, snd (deleteCharacter characterId now st))"
proof -
  let ?ps = "storage st"
  from once have "characterId \<in> set (characterIds ?ps)"
    using count_list_0_iff [of "characterIds ?ps" characterId] by auto
  then have "scanProjects (characterHit characterId) 0 ?ps \<noteq> None"
    by (simp add: scan_characters_None_iff)
  then obtain i characters k where
    found: "scanProjects (characterHit characterId) 0 ?ps = Some (i, characters, k)"
    by auto
  from scanProjects_0_Some_D [OF found]
  have i: "i < length ?ps" and hit: "characterHit characterId (?ps ! i) = Some (characters, k)"
    by auto
  from characterHit_Some_D [OF hit]
  have cs: "p_characters (?ps ! i) = Some characters" "k < length characters"
    "c_id (characters ! k) = characterId"
    by auto
  define p' where "p' = (?ps ! i)
      \<lparr>p_characters := Some (splice1 k characters), p_updatedAt := now\<rparr>"
  define st' where "st' = st\<lparr>storage := ?ps[i := p'], writes := Suc (writes st)\<rparr>"
  have first: "deleteCharacter characterId now st = (True, st')"
    using found
    by (simp add: deleteCharacter_def getAllProjects_def saveProjects_def Let_def p'_def st'_def)
  have own: "charactersOf (?ps ! i) = characters"
    using cs(1) by (simp add: charactersOf_def)
  from cs(2,3) have "characterId \<in> set (map c_id characters)"
    by (metis length_map nth_map nth_mem)
  then have here: "0 < count_list (map c_id characters) characterId"
    by (rule count_list_pos_mem)
  from once characterIds_split [OF i] own
  have sum: "count_list (characterIds (take i ?ps)) characterId
      + count_list (map c_id characters) characterId
      + count_list (characterIds (drop (Suc i) ?ps)) characterId = 1"
    by simp
  from sum here have outside: "count_list (characterIds (take i ?ps)) characterId = 0"
    "count_list (characterIds (drop (Suc i) ?ps)) characterId = 0"
    and inside: "count_list (map c_id characters) characterId = 1"
    by auto
  from splice1_removes_single [OF cs(2) cs(3) inside]
  have gone: "characterId \<notin> set (map c_id (splice1 k characters))" .
  have "charactersOf p' = splice1 k characters"
    by (simp add: p'_def charactersOf_def)
  with characterIds_update [OF i, of p']
  have "characterIds (?ps[i := p']) =
      characterIds (take i ?ps) @ map c_id (splice1 k characters) @ characterIds (drop (Suc i) ?ps)"
    by simp
  with outside gone have "characterId \<notin> set (characterIds (storage st'))"
    by (simp add: st'_def count_list_0_iff)
  then have "scanProjects (characterHit characterId) 0 (storage st') = None"
    by (simp add: scan_characters_None_iff)
  then have second: "deleteCharacter characterId now' st' = (False, st')"
    by (simp add: deleteCharacter_def getAllProjects_def)
  from i cs first second show ?thesis
    unfolding st'_def p'_def splice1_def by auto
qed

section \<open>Deleting twice\<close>

text \<open>
  C7, as amended. For every story (character) id that occurs exactly once among the
  stories (characters) of the snapshot, the first \<open>deleteStory\<close>
  (\<open>deleteCharacter\<close>) call returns true, removes exactly that entity from the list
  of the project that holds it and saves the snapshot; a second call with the same id
  returns false and leaves the state, and with it the persisted snapshot, as the first
  call left it.
\<close>

theorem delete_twice_single_occurrence:
  "(count_list (storyIds (storage st)) storyId = 1 \<longrightarrow>
      (\<exists>i stories k.
          i < length (storage st) \<and> p_stories (storage st ! i) = Some stories
        \<and> k < length stories \<and> s_id (stories ! k) = storyId
        \<and> deleteStory storyId now st =
            (True, st\<lparr>storage := (storage st)[i := (storage st ! i)
                         \<lparr>p_stories := Some (take k stories @ drop (Suc k) stories),
                          p_updatedAt := now\<rparr>],
                      writes := Suc (writes st)\<rparr>)
        \<and> deleteStory storyId now' (snd (deleteStory storyId now st))
            = (False, snd (deleteStory storyId now st))))
   \<and> (count_list (characterIds (storage st)) characterId = 1 \<longrightarrow>
      (\<exists>i characters k.
          i < length (storage st) \<and> p_characters (storage st ! i) = Some characters
        \<and> k < length characters \<and> c_id (characters ! k) = characterId
        \<and> deleteCharacter characterId now st =
            (True, st\<lparr>storage := (storage st)[i := (storage st ! i)
                         \<lparr>p_characters := Some (take k characters @ drop (Suc k) characters),
                          p_updatedAt := now\<rparr>],
                      writes := Suc (writes st)\<rparr>)
        \<and> deleteCharacter characterId now' (snd (deleteCharacter characterId now st))
            = (False, snd (deleteCharacter characterId now st))))"
proof (intro conjI impI)
  assume "count_list (storyIds (storage st)) storyId = 1"
  then show "\<exists>i stories k.
          i < length (storage st) \<and> p_stories (storage st ! i) = Some stories
        \<and> k < length stories \<and> s_id (stories ! k) = storyId
        \<and> deleteStory storyId now st =
            (True, st\<lparr>storage := (storage st)[i := (storage st ! i)
                         \<lparr>p_stories := Some (take k stories @ drop (Suc k) stories),
                          p_updatedAt := now\<rparr>],
                      writes := Suc (writes st)\<rparr>)
        \<and> deleteStory storyId now' (snd (deleteStory storyId now st))
            = (False, snd (deleteStory storyId now st))"
    by (rule deleteStory_twice)
next
  assume "count_list (characterIds (storage st)) characterId = 1"
  then show "\<exists>i characters k.
          i < length (storage st) \<and> p_characters (storage st ! i) = Some characters
        \<and> k < length characters \<and> c_id (characters ! k) = characterId
        \<and> deleteCharacter characterId now st =
            (True, st\<lparr>storage := (storage st)[i := (storage st ! i)
                         \<lparr>p_characters := Some (take k characters @ drop (Suc k) characters),
                          p_updatedAt := now\<rparr>],
                      writes := Suc (writes st)\<rparr>)
        \<and> deleteCharacter characterId now' (snd (deleteCharacter characterId now st))
            = (False, snd (deleteCharacter characterId now st))"
    by (rule deleteCharacter_twice)
qed

theorem delete_twice_single_occurrence_witness:
  "(let st = sampleState
       [sampleProject ''p1'' 1
          (Some [sampleStory ''a'' ''p1'' 1, sampleStory ''b'' ''p1'' 1])
          (Some [sampleCharacter ''x'' ''p1'' 1])]
    in count_list (storyIds (storage st)) ''a'' = 1
       \<and> fst (deleteStory ''a'' 5 st)
       \<and> deleteStory ''a'' 6 (snd (deleteStory ''a'' 5 st))
            = (False, snd (deleteStory ''a'' 5 st))
       \<and> map storiesOf (storage (snd (deleteStory ''a'' 5 st)))
            = [[sampleStory ''b'' ''p1'' 1]]
       \<and> count_list (characterIds (storage st)) ''x'' = 1
       \<and> fst (deleteCharacter ''x'' 5 st)
       \<and> deleteCharacter ''x'' 6 (snd (deleteCharacter ''x'' 5 st))
            = (False, snd (deleteCharacter ''x'' 5 st)))"
proof -
  let ?st = "sampleState
       [sampleProject ''p1'' 1
          (Some [sampleStory ''a'' ''p1'' 1, sampleStory ''b'' ''p1'' 1])
          (Some [sampleCharacter ''x'' ''p1'' 1])]"
  have s1: "count_list (storyIds (storage ?st)) ''a'' = 1"
    by (simp add: sampleState_def sampleProject_def sampleStory_def storyIds_def
        storiesOf_def)
  have c1: "count_list (characterIds (storage ?st)) ''x'' = 1"
    by (simp add: sampleState_def sampleProject_def sampleCharacter_def characterIds_def
        charactersOf_def)
  from delete_twice_single_occurrence [of ?st "''a''" 5 6 "''x''"] s1
  have s: "fst (deleteStory ''a'' 5 ?st)"
    "deleteStory ''a'' 6 (snd (deleteStory ''a'' 5 ?st)) = (False, snd (deleteStory ''a'' 5 ?st))"
    by auto
  from delete_twice_single_occurrence [of ?st "''a''" 5 6 "''x''"] c1
  have c: "fst (deleteCharacter ''x'' 5 ?st)"
    "deleteCharacter ''x'' 6 (snd (deleteCharacter ''x'' 5 ?st))
       = (False, snd (deleteCharacter ''x'' 5 ?st))"
    by auto
  have left: "map storiesOf (storage (snd (deleteStory ''a'' 5 ?st)))
            = [[sampleStory ''b'' ''p1'' 1]]"
    by (simp add: deleteStory_def getAllProjects_def saveProjects_def storyHit_def
        sampleState_def sampleProject_def sampleStory_def splice1_def storiesOf_def Let_def)
  from s1 s left c1 c show ?thesis
    unfolding Let_def by blast
qed

text \<open>
  C7 as stated fails for an id that two stories carry. The snapshot below keeps story
  ids unique within each project, yet both projects hold a story \<open>s1\<close>: the second
  \<open>deleteStory\<close> call finds the other one, returns true and saves a changed snapshot.
\<close>

theorem deleteStory_second_call_counterexample:
  "fst (deleteStory ''s1'' 5
          (sampleState
             [sampleProject ''p1'' 1 (Some [sampleStory ''s1'' ''p1'' 1]) None,
              sampleProject ''p2'' 1 (Some [sampleStory ''s1'' ''p2'' 1]) None]))
   \<and> fst (deleteStory ''s1'' 6
          (snd (deleteStory ''s1'' 5
             (sampleState
                [sampleProject ''p1'' 1 (Some [sampleStory ''s1'' ''p1'' 1]) None,
                 sampleProject ''p2'' 1 (Some [sampleStory ''s1'' ''p2'' 1]) None]))))
   \<and> map storiesOf (storage (snd (deleteStory ''s1'' 5
          (sampleState
             [sampleProject ''p1'' 1 (Some [sampleStory ''s1'' ''p1'' 1]) None,
              sampleProject ''p2'' 1 (Some [sampleStory ''s1'' ''p2'' 1]) None]))))
        = [[], [sampleStory ''s1'' ''p2'' 1]]
   \<and> map storiesOf (storage (snd (deleteStory ''s1'' 6
          (snd (deleteStory ''s1'' 5
             (sampleState
                [sampleProject ''p1'' 1 (Some [sampleStory ''s1'' ''p1'' 1]) None,
                 sampleProject ''p2'' 1 (Some [sampleStory ''s1'' ''p2'' 1]) None]))))))
        = [[], []]"
  by (simp add: deleteStory_def getAllProjects_def saveProjects_def storyHit_def
      sampleState_def sampleProject_def sampleStory_def splice1_def storiesOf_def Let_def)

section \<open>Updating a story that was just created\<close>

lemma createStory_found:
  assumes "findIndex (\<lambda>p. p_id p = cs_projectId data) (storage st) = Some i"
  shows "createStory newId data now st =
     (newStory newId data now,
      st\<lparr>storage := (storage st)[i := (storage st ! i)
             \<lparr>p_stories := Some (storiesOf (storage st ! i) @ [newStory newId data now]),
              p_updatedAt := now\<rparr>],
         writes := Suc (writes st)\<rparr>)"
  using assms
  by (simp add: createStory_def getAllProjects_def saveProjects_def storiesOf_def Let_def)

lemma createCharacter_found:
  assumes "findIndex (\<lambda>p. p_id p = cc_projectId data) (storage st) = Some i"
  shows "createCharacter newId data now st =
     (newCharacter newId data now,
      st\<lparr>storage := (storage st)[i := (storage st ! i)
             \<lparr>p_characters :=
                Some (charactersOf (storage st ! i) @ [newCharacter newId data now]),
              p_updatedAt := now\<rparr>],
         writes := Suc (writes st)\<rparr>)"
  using assms
  by (simp add: createCharacter_def getAllProjects_def saveProjects_def charactersOf_def
      Let_def)

lemma storyIds_nth:
  assumes "j < length ps" and "sid \<notin> set (storyIds ps)"
  shows "sid \<notin> set (map s_id (storiesOf (ps ! j)))"
proof -
  from assms(1) have "ps ! j \<in> set ps"
    by simp
  with assms(2) show ?thesis
    by (auto simp: storyIds_def)
qed

lemma scan_finds_appended_story:
  assumes i: "i < length ps"
    and fresh: "sid \<notin> set (storyIds ps)"
    and sid: "s_id s = sid"
  shows "scanProjects (storyHit sid) 0
           (ps[i := (ps ! i)\<lparr>p_stories := Some (storiesOf (ps ! i) @ [s]), p_updatedAt := t\<rparr>])
         = Some (i, storiesOf (ps ! i) @ [s], length (storiesOf (ps ! i)))"
proof -
  let ?p' = "(ps ! i)\<lparr>p_stories := Some (storiesOf (ps ! i) @ [s]), p_updatedAt := t\<rparr>"
  let ?ps' = "ps[i := ?p']"
  from storyIds_nth [OF i fresh]
  have none_here: "\<forall>x \<in> set (storiesOf (ps ! i)). \<not> s_id x = sid"
    by auto
  from findIndex_snoc_fresh [OF none_here, of s] sid
  have "findIndex (\<lambda>x. s_id x = sid) (storiesOf (ps ! i) @ [s])
          = Some (length (storiesOf (ps ! i)))"
    by simp
  then have here: "storyHit sid ?p'
      = Some (storiesOf (ps ! i) @ [s], length (storiesOf (ps ! i)))"
    by (simp add: storyHit_def)
  have before: "\<forall>j < i. storyHit sid (?ps' ! j) = None"
  proof (intro allI impI)
    fix j assume j: "j < i"
    with i have "j < length ps" by simp
    from storyIds_nth [OF this fresh] have "storyHit sid (ps ! j) = None"
      by (simp add: storyHit_None_iff)
    with j show "storyHit sid (?ps' ! j) = None"
      by simp
  qed
  from i have "i < length ?ps'" and "?ps' ! i = ?p'"
    by simp_all
  with here have "storyHit sid (?ps' ! i)
      = Some (storiesOf (ps ! i) @ [s], length (storiesOf (ps ! i)))"
    by simp
  from scanProjects_first [OF \<open>i < length ?ps'\<close> this before, of 0]
  show ?thesis by simp
qed

lemma findIndex_first:
  "k < length xs \<Longrightarrow> P (xs ! k) \<Longrightarrow> \<forall>m < k. \<not> P (xs ! m) \<Longrightarrow> findIndex P xs = Some k"
proof (induction xs arbitrary: k)
  case Nil
  then show ?case by simp
next
  case (Cons x xs)
  show ?case
  proof (cases k)
    case 0
    with Cons.prems show ?thesis by simp
  next
    case (Suc k')
    from Cons.prems(3) Suc have head: "\<not> P x"
      by auto
    from Cons.prems Suc have "k' < length xs" "P (xs ! k')" "\<forall>m < k'. \<not> P (xs ! m)"
      by auto
    from Cons.IH [OF this] head Suc show ?thesis
      by simp
  qed
qed

lemma updateStory_title_at_first:
  assumes i: "i < length (storage st)"
    and ss: "p_stories (storage st ! i) = Some stories"
    and k: "k < length stories"
    and earlier: "\<forall>j < i. s_id (stories ! k) \<notin> set (map s_id (storiesOf (storage st ! j)))"
    and before: "\<forall>m < k. s_id (stories ! m) \<noteq> s_id (stories ! k)"
  shows "updateStory (s_id (stories ! k)) (titleOnly T2) t1 t2 st
     = (Some ((stories ! k)\<lparr>s_title := T2, s_updatedAt := t1\<rparr>),
        st\<lparr>storage := (storage st)[i := (storage st ! i)
               \<lparr>p_stories := Some (stories[k := (stories ! k)\<lparr>s_title := T2, s_updatedAt := t1\<rparr>]),
                p_updatedAt := t2\<rparr>],
           writes := Suc (writes st)\<rparr>)"
proof -
  let ?sid = "s_id (stories ! k)"
  from before have "\<forall>m < k. \<not> s_id (stories ! m) = ?sid"
    by simp
  from findIndex_first [of k stories "\<lambda>s. s_id s = ?sid", OF k _ this]
  have "findIndex (\<lambda>s. s_id s = ?sid) stories = Some k"
    by simp
  with ss have here: "storyHit ?sid (storage st ! i) = Some (stories, k)"
    by (simp add: storyHit_def)
  from earlier have none: "\<forall>j < i. storyHit ?sid (storage st ! j) = None"
    by (simp add: storyHit_None_iff)
  from scanProjects_first [OF i here none, of 0]
  have found: "scanProjects (storyHit ?sid) 0 (storage st) = Some (i, stories, k)"
    by simp
  have merged: "mergeStory (stories ! k) (titleOnly T2) t1
      = (stories ! k)\<lparr>s_title := T2, s_updatedAt := t1\<rparr>"
    by (simp add: mergeStory_def titleOnly_def spread_def)
  from found merged show ?thesis
    by (simp add: updateStory_def getAllProjects_def saveProjects_def Let_def)
qed

lemma updateStory_after_create:
  assumes owner: "findIndex (\<lambda>p. p_id p = cs_projectId data) (storage st) = Some i"
    and fresh: "newId \<notin> set (storyIds (storage st))"
  shows "updateStory newId (titleOnly T2) t1 t2 (snd (createStory newId data t0 st)) =
      (Some ((newStory newId data t0)\<lparr>s_title := T2, s_updatedAt := t1\<rparr>),
       (snd (createStory newId data t0 st))
         \<lparr>storage := (storage st)[i := (storage st ! i)
             \<lparr>p_stories := Some (storiesOf (storage st ! i)
                  @ [(newStory newId data t0)\<lparr>s_title := T2, s_updatedAt := t1\<rparr>]),
              p_updatedAt := t2\<rparr>],
          writes := Suc (writes (snd (createStory newId data t0 st)))\<rparr>)"
proof -
  let ?ps = "storage st"
  let ?s = "newStory newId data t0"
  let ?ss = "storiesOf (?ps ! i)"
  from findIndex_Some_D [OF owner] have i: "i < length ?ps"
    by simp
  have sid: "s_id ?s = newId"
    by (simp add: newStory_def)
  note created = createStory_found [OF owner, of newId t0]
  from scan_finds_appended_story [OF i fresh sid, of t0]
  have found: "scanProjects (storyHit newId) 0 (storage (snd (createStory newId data t0 st)))
      = Some (i, ?ss @ [?s], length ?ss)"
    by (simp add: created)
  have merged: "mergeStory ?s (titleOnly T2) t1 = ?s\<lparr>s_title := T2, s_updatedAt := t1\<rparr>"
    by (simp add: mergeStory_def titleOnly_def spread_def newStory_def)
  show ?thesis
    using found i
    by (simp add: updateStory_def getAllProjects_def saveProjects_def Let_def merged created)
qed

text \<open>
  C8, as amended. Let \<open>s\<close> be a story that project \<open>i\<close> of the snapshot holds at
  position \<open>k\<close> of its list, and let it be the first story with its id in the order
  the update scans: no story of an earlier project and no earlier story of its own list
  carries \<open>s.id\<close>. Then \<open>updateStory(s.id, {title: T2})\<close> returns \<open>s\<close> with title
  \<open>T2\<close> (and the new stamp) and saves the snapshot in which that story alone is
  replaced and project \<open>i\<close> is stamped: every other project is the same, and every
  sibling story and the characters of project \<open>i\<close> are the same. A story that
  \<open>createStory\<close> has just put under an existing project, with an id that no story of
  the snapshot carried, is such a story.
\<close>

theorem updateStory_title_frame:
  "(i < length (storage st) \<and> p_stories (storage st ! i) = Some stories
      \<and> k < length stories
      \<and> (\<forall>j < i. s_id (stories ! k) \<notin> set (map s_id (storiesOf (storage st ! j))))
      \<and> (\<forall>m < k. s_id (stories ! m) \<noteq> s_id (stories ! k)) \<longrightarrow>
      updateStory (s_id (stories ! k)) (titleOnly T2) t1 t2 st
        = (Some ((stories ! k)\<lparr>s_title := T2, s_updatedAt := t1\<rparr>),
           st\<lparr>storage := (storage st)[i := (storage st ! i)
                  \<lparr>p_stories :=
                     Some (stories[k := (stories ! k)\<lparr>s_title := T2, s_updatedAt := t1\<rparr>]),
                   p_updatedAt := t2\<rparr>],
              writes := Suc (writes st)\<rparr>)
      \<and> (\<forall>j < length (storage st). j \<noteq> i \<longrightarrow>
            storage (snd (updateStory (s_id (stories ! k)) (titleOnly T2) t1 t2 st)) ! j
              = storage st ! j)
      \<and> (\<forall>m < length stories. m \<noteq> k \<longrightarrow>
            storiesOf (storage (snd (updateStory (s_id (stories ! k)) (titleOnly T2) t1 t2 st))
                         ! i) ! m
              = stories ! m)
      \<and> p_characters (storage (snd (updateStory (s_id (stories ! k)) (titleOnly T2) t1 t2 st))
                         ! i)
           = p_characters (storage st ! i))
   \<and> (findIndex (\<lambda>p. p_id p = cs_projectId data) (storage st) = Some i'
      \<and> newId \<notin> set (storyIds (storage st)) \<longrightarrow>
       (let s = fst (createStory newId data t0 st);
            st1 = snd (createStory newId data t0 st);
            r = updateStory (s_id s) (titleOnly T2) t1 t2 st1
        in fst r = Some (s\<lparr>s_title := T2, s_updatedAt := t1\<rparr>)
           \<and> map_option s_title (fst r) = Some T2
           \<and> storage (snd r) =
               (storage st)[i' := (storage st ! i')
                  \<lparr>p_stories := Some (storiesOf (storage st ! i')
                                        @ [s\<lparr>s_title := T2, s_updatedAt := t1\<rparr>]),
                   p_updatedAt := t2\<rparr>]))"
proof (intro conjI impI)
  assume h: "i < length (storage st) \<and> p_stories (storage st ! i) = Some stories
      \<and> k < length stories
      \<and> (\<forall>j < i. s_id (stories ! k) \<notin> set (map s_id (storiesOf (storage st ! j))))
      \<and> (\<forall>m < k. s_id (stories ! m) \<noteq> s_id (stories ! k))"
  then have i: "i < length (storage st)" and k: "k < length stories"
    by simp_all
  from h have run: "updateStory (s_id (stories ! k)) (titleOnly T2) t1 t2 st
        = (Some ((stories ! k)\<lparr>s_title := T2, s_updatedAt := t1\<rparr>),
           st\<lparr>storage := (storage st)[i := (storage st ! i)
                  \<lparr>p_stories :=
                     Some (stories[k := (stories ! k)\<lparr>s_title := T2, s_updatedAt := t1\<rparr>]),
                   p_updatedAt := t2\<rparr>],
              writes := Suc (writes st)\<rparr>)"
    by (intro updateStory_title_at_first) simp_all
  then show "updateStory (s_id (stories ! k)) (titleOnly T2) t1 t2 st
        = (Some ((stories ! k)\<lparr>s_title := T2, s_updatedAt := t1\<rparr>),
           st\<lparr>storage := (storage st)[i := (storage st ! i)
                  \<lparr>p_stories :=
                     Some (stories[k := (stories ! k)\<lparr>s_title := T2, s_updatedAt := t1\<rparr>]),
                   p_updatedAt := t2\<rparr>],
              writes := Suc (writes st)\<rparr>)" .
  show "\<forall>j < length (storage st). j \<noteq> i \<longrightarrow>
            storage (snd (updateStory (s_id (stories ! k)) (titleOnly T2) t1 t2 st)) ! j
              = storage st ! j"
    by (simp add: run)
  from i show "\<forall>m < length stories. m \<noteq> k \<longrightarrow>
            storiesOf (storage (snd (updateStory (s_id (stories ! k)) (titleOnly T2) t1 t2 st))
                         ! i) ! m
              = stories ! m"
    by (simp add: run storiesOf_def)
  from i show "p_characters
        (storage (snd (updateStory (s_id (stories ! k)) (titleOnly T2) t1 t2 st)) ! i)
           = p_characters (storage st ! i)"
    by (simp add: run)
next
  assume "findIndex (\<lambda>p. p_id p = cs_projectId data) (storage st) = Some i'
      \<and> newId \<notin> set (storyIds (storage st))"
  then have owner: "findIndex (\<lambda>p. p_id p = cs_projectId data) (storage st) = Some i'"
    and fresh: "newId \<notin> set (storyIds (storage st))"
    by simp_all
  have sid: "s_id (newStory newId data t0) = newId"
    by (simp add: newStory_def)
  from updateStory_after_create [OF owner fresh, of T2 t1 t2 t0]
  show "(let s = fst (createStory newId data t0 st);
            st1 = snd (createStory newId data t0 st);
            r = updateStory (s_id s) (titleOnly T2) t1 t2 st1
        in fst r = Some (s\<lparr>s_title := T2, s_updatedAt := t1\<rparr>)
           \<and> map_option s_title (fst r) = Some T2
           \<and> storage (snd r) =
               (storage st)[i' := (storage st ! i')
                  \<lparr>p_stories := Some (storiesOf (storage st ! i')
                                        @ [s\<lparr>s_title := T2, s_updatedAt := t1\<rparr>]),
                   p_updatedAt := t2\<rparr>])"
    by (simp add: Let_def createStory_found [OF owner] sid)
qed

theorem updateStory_title_frame_witness:
  "(let ss = [sampleStory ''b'' ''p2'' 2, sampleStory ''c'' ''p2'' 3];
        st = sampleState
               [sampleProject ''p1'' 1 (Some [sampleStory ''a'' ''p1'' 1]) None,
                sampleProject ''p2'' 2 (Some ss) None];
        data = \<lparr>cs_title = ''Chapter 1'', cs_description = None, cs_projectId = ''p2''\<rparr>;
        r = updateStory ''n'' (titleOnly ''T2'') 8 9 (snd (createStory ''n'' data 7 st))
    in p_stories (storage st ! 1) = Some ss
       \<and> ''c'' \<notin> set (map s_id (storiesOf (storage st ! 0)))
       \<and> s_id (ss ! 0) \<noteq> s_id (ss ! 1)
       \<and> updateStory ''c'' (titleOnly ''T2'') 8 9 st
           = (Some ((sampleStory ''c'' ''p2'' 3)\<lparr>s_title := ''T2'', s_updatedAt := 8\<rparr>),
              st\<lparr>storage :=
                   [sampleProject ''p1'' 1 (Some [sampleStory ''a'' ''p1'' 1]) None,
                    (sampleProject ''p2'' 2 (Some ss) None)
                      \<lparr>p_stories := Some [sampleStory ''b'' ''p2'' 2,
                          (sampleStory ''c'' ''p2'' 3)\<lparr>s_title := ''T2'', s_updatedAt := 8\<rparr>],
                       p_updatedAt := 9\<rparr>],
                 writes := 1\<rparr>)
       \<and> findIndex (\<lambda>p. p_id p = cs_projectId data) (storage st) = Some 1
       \<and> ''n'' \<notin> set (storyIds (storage st))
       \<and> map_option s_title (fst r) = Some ''T2''
       \<and> map storiesOf (storage (snd r)) =
           [[sampleStory ''a'' ''p1'' 1],
            [sampleStory ''b'' ''p2'' 2, sampleStory ''c'' ''p2'' 3,
             (newStory ''n'' data 7)\<lparr>s_title := ''T2'', s_updatedAt := 8\<rparr>]])"
proof -
  let ?ss = "[sampleStory ''b'' ''p2'' 2, sampleStory ''c'' ''p2'' 3]"
  let ?st = "sampleState
       [sampleProject ''p1'' 1 (Some [sampleStory ''a'' ''p1'' 1]) None,
        sampleProject ''p2'' 2 (Some ?ss) None]"
  let ?data = "\<lparr>cs_title = ''Chapter 1'', cs_description = None, cs_projectId = ''p2''\<rparr>"
  have i: "1 < length (storage ?st)"
    by (simp add: sampleState_def)
  have ss: "p_stories (storage ?st ! 1) = Some ?ss"
    by (simp add: sampleState_def sampleProject_def)
  have k: "1 < length ?ss"
    by simp
  have c: "s_id (?ss ! 1) = ''c''"
    by (simp add: sampleStory_def)
  have e0: "''c'' \<notin> set (map s_id (storiesOf (storage ?st ! 0)))"
    by (simp add: sampleState_def sampleProject_def sampleStory_def storiesOf_def)
  have earlier: "\<forall>j < 1. s_id (?ss ! 1) \<notin> set (map s_id (storiesOf (storage ?st ! j)))"
    by (simp add: sampleState_def sampleProject_def sampleStory_def storiesOf_def)
  have b0: "s_id (?ss ! 0) \<noteq> s_id (?ss ! 1)"
    by (simp add: sampleStory_def)
  then have before: "\<forall>m < 1. s_id (?ss ! m) \<noteq> s_id (?ss ! 1)"
    by simp
  have owner: "findIndex (\<lambda>p. p_id p = cs_projectId ?data) (storage ?st) = Some 1"
    by (simp add: sampleState_def sampleProject_def)
  have fresh: "''n'' \<notin> set (storyIds (storage ?st))"
    by (simp add: sampleState_def sampleProject_def sampleStory_def storyIds_def storiesOf_def)
  note frame = updateStory_title_frame
    [of 1 ?st ?ss 1 "''T2''" 8 9 ?data 1 "''n''" 7]
  from frame i ss k earlier before
  have "updateStory (s_id (?ss ! 1)) (titleOnly ''T2'') 8 9 ?st
      = (Some ((?ss ! 1)\<lparr>s_title := ''T2'', s_updatedAt := 8\<rparr>),
         ?st\<lparr>storage := (storage ?st)[1 := (storage ?st ! 1)
                \<lparr>p_stories := Some (?ss[1 := (?ss ! 1)\<lparr>s_title := ''T2'', s_updatedAt := 8\<rparr>]),
                 p_updatedAt := 9\<rparr>],
            writes := Suc (writes ?st)\<rparr>)"
    by blast
  then have first: "updateStory ''c'' (titleOnly ''T2'') 8 9 ?st
           = (Some ((sampleStory ''c'' ''p2'' 3)\<lparr>s_title := ''T2'', s_updatedAt := 8\<rparr>),
              ?st\<lparr>storage :=
                   [sampleProject ''p1'' 1 (Some [sampleStory ''a'' ''p1'' 1]) None,
                    (sampleProject ''p2'' 2 (Some ?ss) None)
                      \<lparr>p_stories := Some [sampleStory ''b'' ''p2'' 2,
                          (sampleStory ''c'' ''p2'' 3)\<lparr>s_title := ''T2'', s_updatedAt := 8\<rparr>],
                       p_updatedAt := 9\<rparr>],
                 writes := 1\<rparr>)"
    by (simp add: sampleState_def sampleProject_def sampleStory_def)
  have s: "fst (createStory ''n'' ?data 7 ?st) = newStory ''n'' ?data 7"
    by (simp add: createStory_def Let_def split: option.split)
  have sid: "s_id (newStory ''n'' ?data 7) = ''n''"
    by (simp add: newStory_def)
  from frame owner fresh
  have "(let s = fst (createStory ''n'' ?data 7 ?st);
            st1 = snd (createStory ''n'' ?data 7 ?st);
            r = updateStory (s_id s) (titleOnly ''T2'') 8 9 st1
        in fst r = Some (s\<lparr>s_title := ''T2'', s_updatedAt := 8\<rparr>)
           \<and> map_option s_title (fst r) = Some ''T2''
           \<and> storage (snd r) =
               (storage ?st)[1 := (storage ?st ! 1)
                  \<lparr>p_stories := Some (storiesOf (storage ?st ! 1)
                                        @ [s\<lparr>s_title := ''T2'', s_updatedAt := 8\<rparr>]),
                   p_updatedAt := 9\<rparr>])"
    by blast
  then have both: "map_option s_title
        (fst (updateStory ''n'' (titleOnly ''T2'') 8 9 (snd (createStory ''n'' ?data 7 ?st))))
      = Some ''T2''
    \<and> storage
        (snd (updateStory ''n'' (titleOnly ''T2'') 8 9 (snd (createStory ''n'' ?data 7 ?st))))
      = (storage ?st)[1 := (storage ?st ! 1)
          \<lparr>p_stories := Some (storiesOf (storage ?st ! 1)
               @ [(newStory ''n'' ?data 7)\<lparr>s_title := ''T2'', s_updatedAt := 8\<rparr>]),
           p_updatedAt := 9\<rparr>]"
    by (simp only: Let_def s sid) simp
  from both have title: "map_option s_title
        (fst (updateStory ''n'' (titleOnly ''T2'') 8 9 (snd (createStory ''n'' ?data 7 ?st))))
      = Some ''T2''"
    by (rule conjunct1)
  from both have stored: "storage
        (snd (updateStory ''n'' (titleOnly ''T2'') 8 9 (snd (createStory ''n'' ?data 7 ?st))))
      = (storage ?st)[1 := (storage ?st ! 1)
          \<lparr>p_stories := Some (storiesOf (storage ?st ! 1)
               @ [(newStory ''n'' ?data 7)\<lparr>s_title := ''T2'', s_updatedAt := 8\<rparr>]),
           p_updatedAt := 9\<rparr>]"
    by (rule conjunct2)
  have "map storiesOf ((storage ?st)[1 := (storage ?st ! 1)
          \<lparr>p_stories := Some (storiesOf (storage ?st ! 1)
               @ [(newStory ''n'' ?data 7)\<lparr>s_title := ''T2'', s_updatedAt := 8\<rparr>]),
           p_updatedAt := 9\<rparr>])
      = [[sampleStory ''a'' ''p1'' 1],
         [sampleStory ''b'' ''p2'' 2, sampleStory ''c'' ''p2'' 3,
          (newStory ''n'' ?data 7)\<lparr>s_title := ''T2'', s_updatedAt := 8\<rparr>]]"
    by (simp add: sampleState_def sampleProject_def storiesOf_def)
  with stored have lists: "map storiesOf (storage
        (snd (updateStory ''n'' (titleOnly ''T2'') 8 9 (snd (createStory ''n'' ?data 7 ?st)))))
      = [[sampleStory ''a'' ''p1'' 1],
         [sampleStory ''b'' ''p2'' 2, sampleStory ''c'' ''p2'' 3,
          (newStory ''n'' ?data 7)\<lparr>s_title := ''T2'', s_updatedAt := 8\<rparr>]]"
    by simp
  from ss e0 b0 first owner fresh title lists show ?thesis
    unfolding Let_def by blast
qed

text \<open>
  C8 as stated fails when the id the new story gets is already carried by a story the
  scan meets first. Below, project \<open>p1\<close> holds a story \<open>n\<close> and a story with the
  same id is created under \<open>p2\<close>: \<open>updateStory(n, {title: T2})\<close> rewrites the
  story of the other project \<open>p1\<close> and returns it, and the created story keeps its
  title.
\<close>

theorem updateStory_duplicate_id_counterexample:
  "map (map s_title \<circ> storiesOf)
      (storage (snd (createStory ''n''
          \<lparr>cs_title = ''Chapter 1'', cs_description = None, cs_projectId = ''p2''\<rparr> 7
          (sampleState
             [sampleProject ''p1'' 1 (Some [sampleStory ''n'' ''p1'' 1]) None,
              sampleProject ''p2'' 2 (Some [sampleStory ''b'' ''p2'' 2]) None]))))
     = [[''Chapter''], [''Chapter'', ''Chapter 1'']]
   \<and> fst (updateStory ''n'' (titleOnly ''T2'') 8 9
        (snd (createStory ''n''
          \<lparr>cs_title = ''Chapter 1'', cs_description = None, cs_projectId = ''p2''\<rparr> 7
          (sampleState
             [sampleProject ''p1'' 1 (Some [sampleStory ''n'' ''p1'' 1]) None,
              sampleProject ''p2'' 2 (Some [sampleStory ''b'' ''p2'' 2]) None]))))
     = Some ((sampleStory ''n'' ''p1'' 1)\<lparr>s_title := ''T2'', s_updatedAt := 8\<rparr>)
   \<and> map storiesOf
      (storage (snd (updateStory ''n'' (titleOnly ''T2'') 8 9
        (snd (createStory ''n''
          \<lparr>cs_title = ''Chapter 1'', cs_description = None, cs_projectId = ''p2''\<rparr> 7
          (sampleState
             [sampleProject ''p1'' 1 (Some [sampleStory ''n'' ''p1'' 1]) None,
              sampleProject ''p2'' 2 (Some [sampleStory ''b'' ''p2'' 2]) None]))))))
     = [[(sampleStory ''n'' ''p1'' 1)\<lparr>s_title := ''T2'', s_updatedAt := 8\<rparr>],
        [sampleStory ''b'' ''p2'' 2,
         newStory ''n''
           \<lparr>cs_title = ''Chapter 1'', cs_description = None, cs_projectId = ''p2''\<rparr> 7]]"
  by (simp add: createStory_def updateStory_def getAllProjects_def saveProjects_def
      storyHit_def sampleState_def sampleProject_def sampleStory_def newStory_def
      mergeStory_def titleOnly_def spread_def storiesOf_def orEmpty_def Let_def)

section \<open>One active personality\<close>

lemma new_init_renders_personalities: "new_init personalitySeeds = Some personalities"
  by (simp add: personalitySeeds_def personalities_def renderPersonality_def isWhitespace_def)

lemma filter_cleared: "filter ai_isActive (map (\<lambda>p. p\<lparr>ai_isActive := False\<rparr>) ps) = []"
  by (induction ps) simp_all

lemma setActivePersonality_known:
  assumes "findIndex (\<lambda>p. ai_id p = pid) registry = Some target"
  shows "filter ai_isActive (setActivePersonality pid registry)
           = [(registry ! target)\<lparr>ai_isActive := True\<rparr>]"
proof -
  let ?cleared = "map (\<lambda>p. p\<lparr>ai_isActive := False\<rparr>) registry"
  let ?on = "(registry ! target)\<lparr>ai_isActive := True\<rparr>"
  from findIndex_Some_D [OF assms] have "target < length ?cleared"
    by simp
  then have "?cleared[target := ?on] = take target ?cleared @ ?on # drop (Suc target) ?cleared"
    by (rule upd_conv_take_nth_drop)
  moreover have "filter ai_isActive (take target ?cleared) = []"
    by (simp add: take_map filter_cleared)
  moreover have "filter ai_isActive (drop (Suc target) ?cleared) = []"
    by (simp add: drop_map filter_cleared)
  ultimately have "filter ai_isActive (?cleared[target := ?on]) = [?on]"
    by simp
  with assms show ?thesis
    by (simp add: setActivePersonality_def)
qed

lemma setActivePersonality_unknown:
  assumes "pid \<notin> set (map ai_id registry)"
  shows "setActivePersonality pid registry = registry"
proof -
  from assms have "findIndex (\<lambda>p. ai_id p = pid) registry = None"
    by (simp add: findIndex_key_None_iff)
  then show ?thesis
    by (simp add: setActivePersonality_def)
qed

lemma setActivePersonality_ids:
  "map ai_id (setActivePersonality pid registry) = map ai_id registry"
proof (cases "findIndex (\<lambda>p. ai_id p = pid) registry")
  case None
  then show ?thesis by (simp add: setActivePersonality_def)
next
  case (Some target)
  from findIndex_Some_D [OF Some] have target: "target < length registry"
    by simp
  have "map ai_id ((map (\<lambda>p. p\<lparr>ai_isActive := False\<rparr>) registry)
            [target := (registry ! target)\<lparr>ai_isActive := True\<rparr>])
        = (map ai_id registry)[target := ai_id (registry ! target)]"
    by (simp add: map_update comp_def)
  also from target have "\<dots> = map ai_id registry"
    by (simp add: list_update_same_conv)
  finally show ?thesis
    using Some by (simp add: setActivePersonality_def)
qed

lemma setActivePersonality_one_active:
  assumes "length (filter ai_isActive registry) = 1"
  shows "length (filter ai_isActive (setActivePersonality pid registry)) = 1"
proof (cases "findIndex (\<lambda>p. ai_id p = pid) registry")
  case None
  with assms show ?thesis by (simp add: setActivePersonality_def)
next
  case (Some target)
  from setActivePersonality_known [OF Some] show ?thesis
    by simp
qed

lemma setActiveAll_snoc:
  "setActiveAll (pids @ [pid]) registry = setActivePersonality pid (setActiveAll pids registry)"
  by (simp add: setActiveAll_def)

lemma setActiveAll_ids: "map ai_id (setActiveAll pids registry) = map ai_id registry"
  by (induction pids rule: rev_induct)
     (simp_all add: setActiveAll_snoc setActivePersonality_ids, simp add: setActiveAll_def)

lemma setActiveAll_one_active:
  assumes "length (filter ai_isActive registry) = 1"
  shows "length (filter ai_isActive (setActiveAll pids registry)) = 1"
proof (induction pids rule: rev_induct)
  case Nil
  from assms show ?case by (simp add: setActiveAll_def)
next
  case (snoc pid pids)
  then show ?case
    by (simp add: setActiveAll_snoc setActivePersonality_one_active)
qed

lemma setActiveAll_invariants:
  assumes one: "length (filter ai_isActive registry) = 1"
  shows "map ai_id (setActiveAll pids registry) = map ai_id registry
   \<and> length (filter ai_isActive (setActiveAll pids registry)) = 1
   \<and> (pid \<in> set (map ai_id registry) \<longrightarrow>
        activeIds (setActivePersonality pid (setActiveAll pids registry)) = [pid])
   \<and> (pid \<notin> set (map ai_id registry) \<longrightarrow>
        setActivePersonality pid (setActiveAll pids registry) = setActiveAll pids registry)"
proof (intro conjI impI)
  show "map ai_id (setActiveAll pids registry) = map ai_id registry"
    by (rule setActiveAll_ids)
  from one show "length (filter ai_isActive (setActiveAll pids registry)) = 1"
    by (rule setActiveAll_one_active)
next
  let ?r = "setActiveAll pids registry"
  assume "pid \<in> set (map ai_id registry)"
  with setActiveAll_ids [of pids registry] have "pid \<in> set (map ai_id ?r)"
    by simp
  then have "findIndex (\<lambda>p. ai_id p = pid) ?r \<noteq> None"
    by (simp add: findIndex_key_None_iff)
  then obtain target where found: "findIndex (\<lambda>p. ai_id p = pid) ?r = Some target"
    by auto
  from findIndex_Some_D [OF found] have "ai_id (?r ! target) = pid"
    by simp
  with setActivePersonality_known [OF found]
  show "activeIds (setActivePersonality pid ?r) = [pid]"
    by (simp add: activeIds_def)
next
  let ?r = "setActiveAll pids registry"
  assume "pid \<notin> set (map ai_id registry)"
  with setActiveAll_ids [of pids registry] have "pid \<notin> set (map ai_id ?r)"
    by simp
  then show "setActivePersonality pid ?r = ?r"
    by (rule setActivePersonality_unknown)
qed

lemma personalities_one_active:
  "length (filter ai_isActive personalities) = 1"
  "length (filter ai_isActive personalities_v1) = 1"
  by (simp_all add: personalities_def personalities_v1_def)

text \<open>
  C4. The initial registry, in either of the two initialisations the scripts write,
  has the five profiles mentor, critic, cheerleader, collaborator and editor, of which
  exactly the mentor is active. After any sequence of \<open>setActivePersonality\<close> calls
  from it, with known and unknown ids in any mix, the registry still has the same five
  ids and exactly one profile with \<open>isActive = true\<close>; a further call with a known
  id leaves that id as the only active one, and a further call with an unknown id
  leaves the registry, and so the active profile, as it is.
\<close>

theorem exactly_one_active_personality:
  "map ai_id personalities
     = [''mentor'', ''critic'', ''cheerleader'', ''collaborator'', ''editor'']
   \<and> activeIds personalities = [''mentor'']
   \<and> map ai_id (setActiveAll pids personalities) = map ai_id personalities
   \<and> length (filter ai_isActive (setActiveAll pids personalities)) = 1
   \<and> (pid \<in> set (map ai_id personalities) \<longrightarrow>
        activeIds (setActivePersonality pid (setActiveAll pids personalities)) = [pid])
   \<and> (pid \<notin> set (map ai_id personalities) \<longrightarrow>
        setActivePersonality pid (setActiveAll pids personalities)
          = setActiveAll pids personalities)
   \<and> map ai_id personalities_v1 = map ai_id personalities
   \<and> activeIds personalities_v1 = [''mentor'']
   \<and> map ai_id (setActiveAll pids personalities_v1) = map ai_id personalities_v1
   \<and> length (filter ai_isActive (setActiveAll pids personalities_v1)) = 1
   \<and> (pid \<in> set (map ai_id personalities_v1) \<longrightarrow>
        activeIds (setActivePersonality pid (setActiveAll pids personalities_v1)) = [pid])
   \<and> (pid \<notin> set (map ai_id personalities_v1) \<longrightarrow>
        setActivePersonality pid (setActiveAll pids personalities_v1)
          = setActiveAll pids personalities_v1)"
proof -
  have ids: "map ai_id personalities
     = [''mentor'', ''critic'', ''cheerleader'', ''collaborator'', ''editor'']"
    by (simp add: personalities_def)
  have ids_v1: "map ai_id personalities_v1 = map ai_id personalities"
    by (simp add: personalities_def personalities_v1_def)
  have mentor: "activeIds personalities = [''mentor'']"
    by (simp add: activeIds_def personalities_def)
  have mentor_v1: "activeIds personalities_v1 = [''mentor'']"
    by (simp add: activeIds_def personalities_v1_def)
  note calls = setActiveAll_invariants [OF personalities_one_active(1), of pids pid]
  note calls_v1 = setActiveAll_invariants [OF personalities_one_active(2), of pids pid]
  from ids mentor calls ids_v1 mentor_v1 calls_v1 show ?thesis
    by (intro conjI) blast+
qed

theorem exactly_one_active_personality_witness:
  "''critic'' \<in> set (map ai_id personalities)
   \<and> activeIds (setActivePersonality ''critic''
        (setActiveAll [''editor'', ''nobody''] personalities)) = [''critic'']
   \<and> ''ghost'' \<notin> set (map ai_id personalities)
   \<and> setActivePersonality ''ghost'' (setActiveAll [''editor'', ''nobody''] personalities)
        = setActiveAll [''editor'', ''nobody''] personalities
   \<and> activeIds (setActiveAll [''editor'', ''nobody''] personalities) = [''editor'']
   \<and> ''critic'' \<in> set (map ai_id personalities_v1)
   \<and> activeIds (setActivePersonality ''critic''
        (setActiveAll [''editor'', ''nobody''] personalities_v1)) = [''critic'']
   \<and> ''ghost'' \<notin> set (map ai_id personalities_v1)
   \<and> setActivePersonality ''ghost'' (setActiveAll [''editor'', ''nobody''] personalities_v1)
        = setActiveAll [''editor'', ''nobody''] personalities_v1"
proof -
  have known: "''critic'' \<in> set (map ai_id personalities)"
    by (simp add: personalities_def)
  have unknown: "''ghost'' \<notin> set (map ai_id personalities)"
    by (simp add: personalities_def)
  have known_v1: "''critic'' \<in> set (map ai_id personalities_v1)"
    by (simp add: personalities_v1_def)
  have unknown_v1: "''ghost'' \<notin> set (map ai_id personalities_v1)"
    by (simp add: personalities_v1_def)
  note on_critic = exactly_one_active_personality [of "[''editor'', ''nobody'']" "''critic''"]
  note on_ghost = exactly_one_active_personality [of "[''editor'', ''nobody'']" "''ghost''"]
  from on_critic known
  have a: "activeIds (setActivePersonality ''critic''
        (setActiveAll [''editor'', ''nobody''] personalities)) = [''critic'']"
    by blast
  from on_ghost unknown
  have b: "setActivePersonality ''ghost'' (setActiveAll [''editor'', ''nobody''] personalities)
        = setActiveAll [''editor'', ''nobody''] personalities"
    by blast
  have c: "activeIds (setActiveAll [''editor'', ''nobody''] personalities) = [''editor'']"
    by (simp add: activeIds_def setActiveAll_def setActivePersonality_def personalities_def)
  from on_critic known_v1
  have d: "activeIds (setActivePersonality ''critic''
        (setActiveAll [''editor'', ''nobody''] personalities_v1)) = [''critic'']"
    by blast
  from on_ghost unknown_v1
  have e: "setActivePersonality ''ghost''
        (setActiveAll [''editor'', ''nobody''] personalities_v1)
        = setActiveAll [''editor'', ''nobody''] personalities_v1"
    by blast
  from known a unknown b c known_v1 d unknown_v1 e show ?thesis
    by blast
qed

section \<open>The project's stamp after a child was touched\<close>

lemma list_all_update_iff:
  assumes "k < length xs"
  shows "list_all P (xs[k := x]) \<longleftrightarrow> P x \<and> list_all P (splice1 k xs)"
proof -
  from assms have "xs[k := x] = take k xs @ x # drop (Suc k) xs"
    by (rule upd_conv_take_nth_drop)
  then show ?thesis
    by (auto simp: splice1_def)
qed

lemma createStory_covers_iff:
  assumes owner: "findIndex (\<lambda>p. p_id p = cs_projectId data) (storage st) = Some i"
  shows "coversChildren (storage (snd (createStory newId data now st)) ! i)
           \<longleftrightarrow> stampedBy now (storage st ! i)"
proof -
  from findIndex_Some_D [OF owner] have i: "i < length (storage st)"
    by simp
  have new: "s_updatedAt (newStory newId data now) = now"
    by (simp add: newStory_def)
  from i new show ?thesis
    by (simp add: createStory_found [OF owner] coversChildren_def stampedBy_def
        storiesOf_def charactersOf_def)
qed

lemma createCharacter_covers_iff:
  assumes owner: "findIndex (\<lambda>p. p_id p = cc_projectId data) (storage st) = Some i"
  shows "coversChildren (storage (snd (createCharacter newId data now st)) ! i)
           \<longleftrightarrow> stampedBy now (storage st ! i)"
proof -
  from findIndex_Some_D [OF owner] have i: "i < length (storage st)"
    by simp
  have new: "c_updatedAt (newCharacter newId data now) = now"
    by (simp add: newCharacter_def)
  from i new show ?thesis
    by (simp add: createCharacter_found [OF owner] coversChildren_def stampedBy_def
        storiesOf_def charactersOf_def)
qed

lemma updateStory_covers_iff:
  assumes found: "scanProjects (storyHit storyId) 0 (storage st) = Some (i, stories, k)"
  shows "coversChildren (storage (snd (updateStory storyId updates now1 now2 st)) ! i)
           \<longleftrightarrow> now1 \<le> now2
               \<and> list_all (\<lambda>s. s_updatedAt s \<le> now2) (splice1 k stories)
               \<and> list_all (\<lambda>c. c_updatedAt c \<le> now2) (charactersOf (storage st ! i))"
proof -
  from scanProjects_0_Some_D [OF found]
  have i: "i < length (storage st)"
    and hit: "storyHit storyId (storage st ! i) = Some (stories, k)"
    by auto
  from storyHit_Some_D [OF hit] have k: "k < length stories"
    by simp
  have stamp: "s_updatedAt (mergeStory (stories ! k) updates now1) = now1"
    by (simp add: mergeStory_def)
  from i found show ?thesis
    by (simp add: updateStory_def getAllProjects_def saveProjects_def Let_def
        coversChildren_def stampedBy_def storiesOf_def charactersOf_def
        list_all_update_iff [OF k] stamp)
qed

lemma updateCharacter_covers_iff:
  assumes found:
      "scanProjects (characterHit characterId) 0 (storage st) = Some (i, characters, k)"
  shows "coversChildren (storage (snd (updateCharacter characterId updates now1 now2 st)) ! i)
           \<longleftrightarrow> now1 \<le> now2
               \<and> list_all (\<lambda>s. s_updatedAt s \<le> now2) (storiesOf (storage st ! i))
               \<and> list_all (\<lambda>c. c_updatedAt c \<le> now2) (splice1 k characters)"
proof -
  from scanProjects_0_Some_D [OF found]
  have i: "i < length (storage st)"
    and hit: "characterHit characterId (storage st ! i) = Some (characters, k)"
    by auto
  from characterHit_Some_D [OF hit] have k: "k < length characters"
    by simp
  have stamp: "c_updatedAt (mergeCharacter (characters ! k) updates now1) = now1"
    by (simp add: mergeCharacter_def)
  from i found show ?thesis
    by (auto simp: updateCharacter_def getAllProjects_def saveProjects_def Let_def
        coversChildren_def stampedBy_def storiesOf_def charactersOf_def
        list_all_update_iff [OF k] stamp)
qed

text \<open>
  C9, as amended. Right after \<open>createStory\<close>, \<open>createCharacter\<close>, \<open>updateStory\<close>
  or \<open>updateCharacter\<close> touched a child of project \<open>i\<close> (the project
  \<open>findIndex\<close> finds for a creation, the project at which the scan stops for an
  update), the persisted project \<open>i\<close> has an \<open>updatedAt\<close> greater than or equal to
  the \<open>updatedAt\<close> of every story and character it contains exactly when the clock
  has not run backwards: for an update the reading stamped on the project (\<open>now2\<close>)
  is not before the reading stamped on the child (\<open>now1\<close>), and no other story or
  character of the project carries a stamp later than the reading stamped on the
  project.
\<close>

theorem project_stamp_covers_children:
  "(findIndex (\<lambda>p. p_id p = cs_projectId sdata) (storage st) = Some i \<longrightarrow>
      (coversChildren (storage (snd (createStory newId sdata now st)) ! i)
         \<longleftrightarrow> stampedBy now (storage st ! i)))
   \<and> (findIndex (\<lambda>p. p_id p = cc_projectId cdata) (storage st) = Some i \<longrightarrow>
      (coversChildren (storage (snd (createCharacter newId cdata now st)) ! i)
         \<longleftrightarrow> stampedBy now (storage st ! i)))
   \<and> (scanProjects (storyHit storyId) 0 (storage st) = Some (i, stories, k) \<longrightarrow>
      (coversChildren (storage (snd (updateStory storyId supdates now1 now2 st)) ! i)
         \<longleftrightarrow> now1 \<le> now2
             \<and> list_all (\<lambda>s. s_updatedAt s \<le> now2) (splice1 k stories)
             \<and> list_all (\<lambda>c. c_updatedAt c \<le> now2) (charactersOf (storage st ! i))))
   \<and> (scanProjects (characterHit characterId) 0 (storage st) = Some (i, characters, k') \<longrightarrow>
      (coversChildren (storage (snd (updateCharacter characterId cupdates now1 now2 st)) ! i)
         \<longleftrightarrow> now1 \<le> now2
             \<and> list_all (\<lambda>s. s_updatedAt s \<le> now2) (storiesOf (storage st ! i))
             \<and> list_all (\<lambda>c. c_updatedAt c \<le> now2) (splice1 k' characters)))"
  using createStory_covers_iff [of sdata st i newId now]
    createCharacter_covers_iff [of cdata st i newId now]
    updateStory_covers_iff [of storyId st i stories k supdates now1 now2]
    updateCharacter_covers_iff [of characterId st i characters k' cupdates now1 now2]
  by blast

theorem project_stamp_covers_children_witness:
  "(let p = sampleProject ''p1'' 3
              (Some [sampleStory ''a'' ''p1'' 2, sampleStory ''b'' ''p1'' 3])
              (Some [sampleCharacter ''x'' ''p1'' 1]);
        st = sampleState [p];
        sdata = \<lparr>cs_title = ''Chapter 2'', cs_description = None, cs_projectId = ''p1''\<rparr>;
        cdata = \<lparr>cc_name = ''Bo'', cc_description = None, cc_projectId = ''p1''\<rparr>
    in findIndex (\<lambda>q. p_id q = ''p1'') (storage st) = Some 0
       \<and> stampedBy 5 (storage st ! 0) \<and> (5::nat) \<le> 6
       \<and> scanProjects (storyHit ''b'') 0 (storage st)
            = Some (0, [sampleStory ''a'' ''p1'' 2, sampleStory ''b'' ''p1'' 3], 1)
       \<and> scanProjects (characterHit ''x'') 0 (storage st)
            = Some (0, [sampleCharacter ''x'' ''p1'' 1], 0)
       \<and> coversChildren (storage (snd (createStory ''n'' sdata 5 st)) ! 0)
       \<and> coversChildren (storage (snd (createCharacter ''n'' cdata 5 st)) ! 0)
       \<and> coversChildren (storage (snd (updateStory ''b'' (titleOnly ''T2'') 5 6 st)) ! 0)
       \<and> coversChildren (storage (snd (updateCharacter ''x'' noCharacterUpdates 5 6 st)) ! 0)
       \<and> \<not> coversChildren (storage (snd (updateStory ''b'' (titleOnly ''T2'') 5 1 st)) ! 0)
       \<and> p_updatedAt (storage (snd (updateStory ''b'' (titleOnly ''T2'') 5 6 st)) ! 0) = 6
       \<and> map s_updatedAt
            (storiesOf (storage (snd (updateStory ''b'' (titleOnly ''T2'') 5 6 st)) ! 0))
           = [2, 5])"
proof -
  let ?ss = "[sampleStory ''a'' ''p1'' 2, sampleStory ''b'' ''p1'' 3]"
  let ?cs = "[sampleCharacter ''x'' ''p1'' 1]"
  let ?st = "sampleState [sampleProject ''p1'' 3 (Some ?ss) (Some ?cs)]"
  let ?sdata = "\<lparr>cs_title = ''Chapter 2'', cs_description = None, cs_projectId = ''p1''\<rparr>"
  let ?cdata = "\<lparr>cc_name = ''Bo'', cc_description = None, cc_projectId = ''p1''\<rparr>"
  have owner: "findIndex (\<lambda>q. p_id q = ''p1'') (storage ?st) = Some 0"
    by (simp add: sampleState_def sampleProject_def)
  have past5: "stampedBy 5 (storage ?st ! 0)"
    by (simp add: stampedBy_def sampleState_def sampleProject_def sampleStory_def
        sampleCharacter_def storiesOf_def charactersOf_def)
  have clock: "(5::nat) \<le> 6"
    by simp
  have sfound: "scanProjects (storyHit ''b'') 0 (storage ?st) = Some (0, ?ss, 1)"
    by (simp add: storyHit_def sampleState_def sampleProject_def sampleStory_def)
  have cfound: "scanProjects (characterHit ''x'') 0 (storage ?st) = Some (0, ?cs, 0)"
    by (simp add: characterHit_def sampleState_def sampleProject_def sampleCharacter_def)
  have sowner: "findIndex (\<lambda>q. p_id q = cs_projectId ?sdata) (storage ?st) = Some 0"
    using owner by simp
  have cowner: "findIndex (\<lambda>q. p_id q = cc_projectId ?cdata) (storage ?st) = Some 0"
    using owner by simp
  have others6:
    "list_all (\<lambda>s. s_updatedAt s \<le> 6) (splice1 1 ?ss)"
    "list_all (\<lambda>c. c_updatedAt c \<le> 6) (charactersOf (storage ?st ! 0))"
    "list_all (\<lambda>s. s_updatedAt s \<le> 6) (storiesOf (storage ?st ! 0))"
    "list_all (\<lambda>c. c_updatedAt c \<le> 6) (splice1 0 ?cs)"
    by (simp_all add: splice1_def sampleState_def sampleProject_def sampleStory_def
        sampleCharacter_def storiesOf_def charactersOf_def)
  note all = project_stamp_covers_children
    [of ?sdata ?st 0 "''n''" 5 ?cdata "''b''" ?ss 1 "titleOnly ''T2''" 5 6 "''x''" ?cs 0
        noCharacterUpdates]
  from all sowner past5
  have a: "coversChildren (storage (snd (createStory ''n'' ?sdata 5 ?st)) ! 0)"
    by blast
  from all cowner past5
  have b: "coversChildren (storage (snd (createCharacter ''n'' ?cdata 5 ?st)) ! 0)"
    by blast
  from all sfound clock others6
  have c: "coversChildren (storage (snd (updateStory ''b'' (titleOnly ''T2'') 5 6 ?st)) ! 0)"
    by blast
  from all cfound clock others6
  have d: "coversChildren
      (storage (snd (updateCharacter ''x'' noCharacterUpdates 5 6 ?st)) ! 0)"
    by blast
  from project_stamp_covers_children
    [of ?sdata ?st 0 "''n''" 5 ?cdata "''b''" ?ss 1 "titleOnly ''T2''" 5 1 "''x''" ?cs 0
        noCharacterUpdates] sfound
  have behind: "\<not> coversChildren
      (storage (snd (updateStory ''b'' (titleOnly ''T2'') 5 1 ?st)) ! 0)"
    by simp
  have e: "p_updatedAt (storage (snd (updateStory ''b'' (titleOnly ''T2'') 5 6 ?st)) ! 0) = 6"
    using sfound
    by (simp add: updateStory_def getAllProjects_def saveProjects_def Let_def
        sampleState_def)
  have f: "map s_updatedAt
      (storiesOf (storage (snd (updateStory ''b'' (titleOnly ''T2'') 5 6 ?st)) ! 0)) = [2, 5]"
    using sfound
    by (simp add: updateStory_def getAllProjects_def saveProjects_def Let_def
        sampleState_def storiesOf_def mergeStory_def sampleStory_def)
  from owner past5 clock sfound cfound a b c d behind e f show ?thesis
    unfolding Let_def by blast
qed

text \<open>
  C9 as stated fails when the clock reads earlier than a stamp the project holds, or
  reads earlier the second time than the first. Below, a project stamped 10 holds a
  story stamped 10 and covers it; \<open>createStory\<close> at clock reading 5 stamps the
  project 5, below the sibling's 10. And \<open>updateStory\<close> with the readings 12 and
  then 11 stamps the story 12 and its project 11.
\<close>

theorem project_stamp_behind_child_counterexample:
  "coversChildren (sampleProject ''p1'' 10 (Some [sampleStory ''a'' ''p1'' 10]) None)
   \<and> \<not> coversChildren
        (storage (snd (createStory ''n''
            \<lparr>cs_title = ''Chapter 2'', cs_description = None, cs_projectId = ''p1''\<rparr> 5
            (sampleState [sampleProject ''p1'' 10 (Some [sampleStory ''a'' ''p1'' 10]) None])))
         ! 0)
   \<and> map s_updatedAt
        (storiesOf (storage (snd (createStory ''n''
            \<lparr>cs_title = ''Chapter 2'', cs_description = None, cs_projectId = ''p1''\<rparr> 5
            (sampleState [sampleProject ''p1'' 10 (Some [sampleStory ''a'' ''p1'' 10]) None])))
         ! 0)) = [10, 5]
   \<and> p_updatedAt
        (storage (snd (createStory ''n''
            \<lparr>cs_title = ''Chapter 2'', cs_description = None, cs_projectId = ''p1''\<rparr> 5
            (sampleState [sampleProject ''p1'' 10 (Some [sampleStory ''a'' ''p1'' 10]) None])))
         ! 0) = 5
   \<and> \<not> coversChildren
        (storage (snd (updateStory ''a'' (titleOnly ''T2'') 12 11
            (sampleState [sampleProject ''p1'' 10 (Some [sampleStory ''a'' ''p1'' 10]) None])))
         ! 0)"
  by (simp add: createStory_def updateStory_def getAllProjects_def saveProjects_def
      storyHit_def sampleState_def sampleProject_def sampleStory_def newStory_def
      mergeStory_def coversChildren_def stampedBy_def storiesOf_def charactersOf_def
      Let_def)

section \<open>Starting a writing session\<close>

lemma orNeutral_validateMood:
  assumes "[] \<notin> set vocabulary"
  shows "orNeutral (validateMood vocabulary mood)
     = (case validateMood vocabulary mood of None \<Rightarrow> ''neutral'' | Some m \<Rightarrow> m)"
proof (cases "validateMood vocabulary mood")
  case None
  then show ?thesis by (simp add: orNeutral_def)
next
  case (Some m)
  then have "m \<in> set vocabulary"
    by (auto simp: validateMood_def split: option.splits if_splits)
  with assms have "m \<noteq> []"
    by auto
  with Some show ?thesis by (simp add: orNeutral_def)
qed

text \<open>
  C5. For every \<open>startWritingSession(title, contentId?, mood?)\<close> call the session
  built has \<open>startTime = now\<close>, the numeric metrics \<open>wordCount\<close>, \<open>totalWords\<close>,
  \<open>wordsAdded\<close>, \<open>timeSpent\<close> and \<open>productivity\<close> all zero and
  \<open>isActive = true\<close>. With a vocabulary that has no empty word, its mood is the
  candidate when \<open>validateMood\<close> accepts it and \<open>neutral\<close> otherwise; a mood
  outside the vocabulary, such as \<open>furious\<close>, gives \<open>neutral\<close>.
\<close>

theorem startWritingSession_initial:
  "ws_startTime (startWritingSession vocabulary sessionId title contentId mood now) = now
   \<and> ws_wordCount (startWritingSession vocabulary sessionId title contentId mood now) = 0
   \<and> ws_totalWords (startWritingSession vocabulary sessionId title contentId mood now) = 0
   \<and> ws_wordsAdded (startWritingSession vocabulary sessionId title contentId mood now) = 0
   \<and> ws_timeSpent (startWritingSession vocabulary sessionId title contentId mood now) = 0
   \<and> ws_productivity (startWritingSession vocabulary sessionId title contentId mood now) = 0
   \<and> ws_isActive (startWritingSession vocabulary sessionId title contentId mood now)
   \<and> ([] \<notin> set vocabulary \<longrightarrow>
        ws_mood (startWritingSession vocabulary sessionId title contentId mood now)
          = Some (case validateMood vocabulary mood of None \<Rightarrow> ''neutral'' | Some m \<Rightarrow> m))
   \<and> (''furious'' \<notin> set vocabulary \<longrightarrow>
        ws_mood (startWritingSession vocabulary sessionId title contentId (Some ''furious'') now)
          = Some ''neutral'')"
proof (intro conjI impI)
  assume "[] \<notin> set vocabulary"
  then show "ws_mood (startWritingSession vocabulary sessionId title contentId mood now)
          = Some (case validateMood vocabulary mood of None \<Rightarrow> ''neutral'' | Some m \<Rightarrow> m)"
    by (simp add: startWritingSession_def orNeutral_validateMood)
next
  assume "''furious'' \<notin> set vocabulary"
  then have "validateMood vocabulary (Some ''furious'') = None"
    by (simp add: validateMood_def)
  then show "ws_mood
      (startWritingSession vocabulary sessionId title contentId (Some ''furious'') now)
          = Some ''neutral''"
    by (simp add: startWritingSession_def orNeutral_def)
qed (simp_all add: startWritingSession_def)

theorem startWritingSession_initial_witness:
  "[] \<notin> set [''happy'', ''neutral'', ''focused'']
   \<and> ws_mood (startWritingSession [''happy'', ''neutral'', ''focused''] ''session_1'' ''Draft''
                None (Some ''happy'') 42) = Some ''happy''
   \<and> ''furious'' \<notin> set [''happy'', ''neutral'', ''focused'']
   \<and> ws_mood (startWritingSession [''happy'', ''neutral'', ''focused''] ''session_1'' ''Draft''
                None (Some ''furious'') 42) = Some ''neutral''
   \<and> ws_startTime (startWritingSession [''happy'', ''neutral'', ''focused''] ''session_1''
                ''Draft'' None (Some ''furious'') 42) = 42"
proof -
  let ?v = "[''happy'', ''neutral'', ''focused'']"
  have noempty: "[] \<notin> set ?v"
    by simp
  have out: "''furious'' \<notin> set ?v"
    by simp
  have accepted: "validateMood ?v (Some ''happy'') = Some ''happy''"
    by (simp add: validateMood_def)
  from startWritingSession_initial [of ?v "''session_1''" "''Draft''" None "Some ''happy''" 42]
    noempty accepted
  have a: "ws_mood (startWritingSession ?v ''session_1'' ''Draft'' None (Some ''happy'') 42)
      = Some ''happy''"
    by simp
  from startWritingSession_initial [of ?v "''session_1''" "''Draft''" None "Some ''furious''" 42]
    out
  have b: "ws_mood (startWritingSession ?v ''session_1'' ''Draft'' None (Some ''furious'') 42)
      = Some ''neutral''"
    and c: "ws_startTime
      (startWritingSession ?v ''session_1'' ''Draft'' None (Some ''furious'') 42) = 42"
    by blast+
  from noempty a out b c show ?thesis
    by blast
qed

section \<open>The derived metrics of a session\<close>

lemma recomputeMetrics_totalWords_mono:
  "ws_totalWords s \<le> ws_totalWords (recomputeMetrics countWords content s)"
  by (simp add: recomputeMetrics_def Let_def)

lemma contentChanges_snoc:
  "contentChanges countWords (contents @ [content]) s
     = recomputeMetrics countWords content (contentChanges countWords contents s)"
  by (simp add: contentChanges_def)

lemma contentChanges_append:
  "contentChanges countWords (contents @ later) s
     = contentChanges countWords later (contentChanges countWords contents s)"
  by (simp add: contentChanges_def)

lemma contentChanges_totalWords_mono:
  "ws_totalWords s \<le> ws_totalWords (contentChanges countWords contents s)"
proof (induction contents rule: rev_induct)
  case Nil
  show ?case by (simp add: contentChanges_def)
next
  case (snoc content contents)
  have "ws_totalWords (contentChanges countWords contents s)
      \<le> ws_totalWords (recomputeMetrics countWords content
            (contentChanges countWords contents s))"
    by (rule recomputeMetrics_totalWords_mono)
  with snoc.IH show ?case
    by (simp add: contentChanges_snoc)
qed

lemma contentChanges_wordsAdded_nonneg:
  assumes "0 \<le> ws_wordsAdded s"
  shows "0 \<le> ws_wordsAdded (contentChanges countWords contents s)"
proof (cases contents rule: rev_cases)
  case Nil
  with assms show ?thesis by (simp add: contentChanges_def)
next
  case (snoc contents' content)
  then show ?thesis
    by (simp add: contentChanges_snoc recomputeMetrics_def Let_def)
qed

text \<open>
  C6. After every recomputation of the derived metrics \<open>wordsAdded\<close> equals
  \<open>max(0, wordCount - totalWords)\<close> with \<open>totalWords\<close> as it was at the previous
  recomputation, and is never negative, whatever the new content is; throughout a
  session started by \<open>startWritingSession\<close>, after any sequence of content changes,
  \<open>wordsAdded\<close> is not negative, and \<open>totalWords\<close> never decreases from one point
  of the sequence to a later one.
\<close>

theorem session_metrics_invariants:
  "ws_wordsAdded (recomputeMetrics countWords content s)
     = max 0 (ws_wordCount (recomputeMetrics countWords content s) - ws_totalWords s)
   \<and> ws_wordCount (recomputeMetrics countWords content s) = int (countWords content)
   \<and> 0 \<le> ws_wordsAdded (recomputeMetrics countWords content s)
   \<and> ws_totalWords s \<le> ws_totalWords (recomputeMetrics countWords content s)
   \<and> 0 \<le> ws_wordsAdded (contentChanges countWords contents
            (startWritingSession vocabulary sessionId title contentId mood now))
   \<and> ws_totalWords (contentChanges countWords contents
            (startWritingSession vocabulary sessionId title contentId mood now))
       \<le> ws_totalWords (contentChanges countWords (contents @ later)
            (startWritingSession vocabulary sessionId title contentId mood now))"
proof (intro conjI)
  show "ws_wordsAdded (recomputeMetrics countWords content s)
     = max 0 (ws_wordCount (recomputeMetrics countWords content s) - ws_totalWords s)"
    by (simp add: recomputeMetrics_def Let_def)
  show "ws_wordCount (recomputeMetrics countWords content s) = int (countWords content)"
    by (simp add: recomputeMetrics_def Let_def)
  show "0 \<le> ws_wordsAdded (recomputeMetrics countWords content s)"
    by (simp add: recomputeMetrics_def Let_def)
  show "ws_totalWords s \<le> ws_totalWords (recomputeMetrics countWords content s)"
    by (rule recomputeMetrics_totalWords_mono)
  have "0 \<le> ws_wordsAdded (startWritingSession vocabulary sessionId title contentId mood now)"
    by (simp add: startWritingSession_def)
  then show "0 \<le> ws_wordsAdded (contentChanges countWords contents
            (startWritingSession vocabulary sessionId title contentId mood now))"
    by (rule contentChanges_wordsAdded_nonneg)
  show "ws_totalWords (contentChanges countWords contents
            (startWritingSession vocabulary sessionId title contentId mood now))
       \<le> ws_totalWords (contentChanges countWords (contents @ later)
            (startWritingSession vocabulary sessionId title contentId mood now))"
    by (simp only: contentChanges_append contentChanges_totalWords_mono)
qed

end
